theory Spec2Isabelle
  imports Main
begin

section \<open>JavaScript values, objects and errors\<close>

text \<open>
  The subsystem is TypeScript. Values that flow through wire configurations are modelled
  by \<open>jsval\<close>; an object is the list of its own enumerable properties in enumeration
  order. Members inherited from \<open>Object.prototype\<close> and the members of primitive
  wrappers are outside the model.
\<close>

datatype jsval =
    JUndefined
  | JNull
  | JBool bool
  | JNum int
  | JStr string
  | JObj "(string \<times> jsval) list"

type_synonym jsobject = "(string \<times> jsval) list"

datatype error =
    TypeError string
  | ReferenceError string
  | AssertError string
  | InvalidEventType string

text \<open>\<open>obj[key]\<close> on an object: a missing property reads as \<open>undefined\<close>.\<close>

definition obj_get :: "jsobject \<Rightarrow> string \<Rightarrow> jsval" where
  "obj_get ps key = (case map_of ps key of None \<Rightarrow> JUndefined | Some v \<Rightarrow> v)"

text \<open>\<open>obj[key] = v\<close>: an existing property keeps its position, a new one is appended.\<close>

fun obj_set :: "(string \<times> 'a) list \<Rightarrow> string \<Rightarrow> 'a \<Rightarrow> (string \<times> 'a) list" where
  "obj_set [] key v = [(key, v)]"
| "obj_set ((k, w) # ps) key v =
     (if k = key then (k, v) # ps else (k, w) # obj_set ps key v)"

text \<open>
  \<open>value[segment]\<close> on an arbitrary value. Reading a member of \<open>null\<close> or
  \<open>undefined\<close> throws a TypeError.
\<close>

fun get_member :: "jsval \<Rightarrow> string \<Rightarrow> error + jsval" where
  "get_member JUndefined segment = Inl (TypeError ''Cannot read properties of undefined'')"
| "get_member JNull segment = Inl (TypeError ''Cannot read properties of null'')"
| "get_member (JObj ps) segment = Inr (obj_get ps segment)"
| "get_member v segment = Inr JUndefined"

text \<open>\<open>value != null\<close> (loose inequality): false exactly for \<open>null\<close> and \<open>undefined\<close>.\<close>

definition not_nullish :: "jsval \<Rightarrow> bool" where
  "not_nullish v = (v \<noteq> JNull \<and> v \<noteq> JUndefined)"

text \<open>\<open>Object.assign(target, source)\<close> for one source; an \<open>undefined\<close> source is skipped.\<close>

fun assign1 :: "jsobject \<Rightarrow> jsobject \<Rightarrow> jsobject" where
  "assign1 target [] = target"
| "assign1 target ((k, v) # ps) = assign1 (obj_set target k v) ps"

definition assign :: "jsobject \<Rightarrow> jsobject option \<Rightarrow> jsobject \<Rightarrow> jsobject" where
  "assign target cfgStatic reactiveParams =
     assign1 (case cfgStatic of None \<Rightarrow> target | Some s \<Rightarrow> assign1 target s) reactiveParams"

section \<open>Reactive parameters (register.ts)\<close>

record ReactiveParameter =
  reference :: string
  head :: string
  tail :: "string list"

text \<open>\<open>StringSplit.call(reference, '.')\<close>: always at least one segment.\<close>

fun split_dot :: "string \<Rightarrow> string list" where
  "split_dot [] = [[]]"
| "split_dot (c # cs) =
     (if c = CHR ''.'' then [] # split_dot cs
      else (case split_dot cs of [] \<Rightarrow> [[c]] | s # ss \<Rightarrow> (c # s) # ss))"

text \<open>
  \<open>buildReactiveParameter\<close>: the module-level \<open>refCache\<close> is threaded through.
  \<open>ArrayShift\<close> removes the first segment and returns it; on an empty array it would
  return \<open>undefined\<close>, which as a property key reads \<open>undefined\<close>.
\<close>

definition buildReactiveParameter ::
  "(string \<rightharpoonup> ReactiveParameter) \<Rightarrow> string \<Rightarrow> ReactiveParameter \<times> (string \<rightharpoonup> ReactiveParameter)" where
  "buildReactiveParameter cache ref =
     (case cache ref of
        Some rp \<Rightarrow> (rp, cache)
      | None \<Rightarrow>
          (let segments = split_dot ref;
               rp = (case segments of
                       [] \<Rightarrow> \<lparr>reference = ref, head = ''undefined'', tail = []\<rparr>
                     | h # t \<Rightarrow> \<lparr>reference = ref, head = h, tail = t\<rparr>)
           in (rp, cache(ref \<mapsto> rp))))"

text \<open>\<open>buildReactiveParamsConfig\<close>: one reactive parameter per key of the wire's params.\<close>

fun buildReactiveParamsConfig_loop ::
  "(string \<times> string) list \<Rightarrow> (string \<times> ReactiveParameter) list \<Rightarrow> (string \<rightharpoonup> ReactiveParameter)
     \<Rightarrow> (string \<times> ReactiveParameter) list \<times> (string \<rightharpoonup> ReactiveParameter)" where
  "buildReactiveParamsConfig_loop [] record cache = (record, cache)"
| "buildReactiveParamsConfig_loop ((key, ref) # rest) record cache =
     (case buildReactiveParameter cache ref of
        (rp, cache') \<Rightarrow>
          buildReactiveParamsConfig_loop rest (obj_set record key rp) cache')"

definition buildReactiveParamsConfig ::
  "(string \<rightharpoonup> ReactiveParameter) \<Rightarrow> (string \<times> string) list
     \<Rightarrow> (string \<times> ReactiveParameter) list \<times> (string \<rightharpoonup> ReactiveParameter)" where
  "buildReactiveParamsConfig cache wireDefParams =
     buildReactiveParamsConfig_loop wireDefParams [] cache"

text \<open>
  \<open>getReactiveParameterValue\<close>: \<open>host[head]\<close>, then the loop over the tail. The loop
  returns \<open>undefined\<close> when the current value is not nullish and otherwise reads
  \<open>value[segment]\<close>.
\<close>

fun getReactiveParameterValue_loop :: "jsval \<Rightarrow> string list \<Rightarrow> error + jsval" where
  "getReactiveParameterValue_loop v [] = Inr v"
| "getReactiveParameterValue_loop v (segment # rest) =
     (if not_nullish v then Inr JUndefined
      else (case get_member v segment of
              Inl e \<Rightarrow> Inl e
            | Inr v' \<Rightarrow> getReactiveParameterValue_loop v' rest))"

definition getReactiveParameterValue :: "jsobject \<Rightarrow> ReactiveParameter \<Rightarrow> error + jsval" where
  "getReactiveParameterValue host reactiveParameter =
     getReactiveParameterValue_loop (obj_get host (head reactiveParameter)) (tail reactiveParameter)"

text \<open>
  \<open>computeReactiveParams\<close>. Besides the computed record the model returns the list of
  host properties that were read, in order: each read of a component property is what
  registers a reactive dependency.
\<close>

fun computeReactiveParams_loop ::
  "jsobject \<Rightarrow> (string \<times> ReactiveParameter) list \<Rightarrow> string list \<Rightarrow> jsobject
     \<Rightarrow> string list \<times> (error + jsobject)" where
  "computeReactiveParams_loop obj [] reads v = (reads, Inr v)"
| "computeReactiveParams_loop obj ((key, config) # rest) reads v =
     (case getReactiveParameterValue obj config of
        Inl e \<Rightarrow> (reads @ [head config], Inl e)
      | Inr x \<Rightarrow> computeReactiveParams_loop obj rest (reads @ [head config]) (obj_set v key x))"

definition computeReactiveParams ::
  "jsobject \<Rightarrow> (string \<times> ReactiveParameter) list \<Rightarrow> string list \<times> (error + jsobject)" where
  "computeReactiveParams obj paramsConfig = computeReactiveParams_loop obj paramsConfig [] []"

type_synonym configCallback = "jsobject \<Rightarrow> string list \<times> (error + jsobject)"

definition buildConfigExtractor ::
  "(string \<rightharpoonup> ReactiveParameter) \<Rightarrow> jsobject option \<Rightarrow> (string \<times> string) list option
     \<Rightarrow> configCallback \<times> (string \<rightharpoonup> ReactiveParameter)" where
  "buildConfigExtractor cache cfgStatic cfgDynamic =
     (case (case cfgDynamic of
              None \<Rightarrow> ([], cache)
            | Some d \<Rightarrow> buildReactiveParamsConfig cache d) of
        (paramsConfig, cache') \<Rightarrow>
          (\<lambda>host. (case computeReactiveParams host paramsConfig of
                      (reads, Inl e) \<Rightarrow> (reads, Inl e)
                    | (reads, Inr reactiveParams) \<Rightarrow>
                        (reads, Inr (assign [] cfgStatic reactiveParams))),
           cache'))"

section \<open>The wire adapter (wire-service)\<close>

text \<open>
  Functions handed to the adapter (the data callback, the contextualizer, listeners and
  linked callbacks) are opaque: a function is its identity, and calling it is recorded
  in a trace of calls. What a called function does in turn is outside the model.
\<close>

type_synonym fnid = nat

datatype call = Call fnid "jsval list"

datatype wire_event =
    ValueChangedEvent jsval
  | LinkContextEvent string fnid
  | OtherEvent string

text \<open>
  \<open>contexting\<close> is an object created with \<open>create(null)\<close>. The source types its
  members as listener arrays, but \<open>ArrayPush.call(this.contexting, callback)\<close> also
  stores single callbacks under index keys and a number under \<open>length\<close>.
\<close>

datatype context_slot =
    ListenerArray "fnid list"
  | ListenerFn fnid
  | LengthNumber nat

record WireAdapter =
  callback :: fnid
  contextualizer :: "fnid option"
  connecting :: "fnid list"
  disconnecting :: "fnid list"
  configuring :: "fnid list"
  contexting :: "string \<rightharpoonup> context_slot"

definition WireAdapter_new :: "fnid \<Rightarrow> fnid option \<Rightarrow> WireAdapter" where
  "WireAdapter_new cb ctx =
     \<lparr>callback = cb, contextualizer = ctx, connecting = [], disconnecting = [],
      configuring = [], contexting = Map.empty\<rparr>"

text \<open>Decimal rendering of an array index, as \<open>ToString\<close> gives for a property key.\<close>

definition digit_char :: "nat \<Rightarrow> char" where
  "digit_char d =
     (if d = 0 then CHR ''0'' else if d = 1 then CHR ''1'' else if d = 2 then CHR ''2''
      else if d = 3 then CHR ''3'' else if d = 4 then CHR ''4'' else if d = 5 then CHR ''5''
      else if d = 6 then CHR ''6'' else if d = 7 then CHR ''7'' else if d = 8 then CHR ''8''
      else CHR ''9'')"

fun string_of_nat :: "nat \<Rightarrow> string" where
  "string_of_nat n =
     (if n < 10 then [digit_char n] else string_of_nat (n div 10) @ [digit_char (n mod 10)])"

declare string_of_nat.simps [simp del]

text \<open>Reading a decimal rendering back, to tell index keys apart.\<close>

definition digit_value :: "char \<Rightarrow> nat" where
  "digit_value c = length (takeWhile (\<lambda>d. d \<noteq> c) ''0123456789'')"

definition nat_of_string :: "string \<Rightarrow> nat" where
  "nat_of_string s = foldl (\<lambda>a c. 10 * a + digit_value c) 0 s"

text \<open>
  \<open>ToLength(Get(O, "length"))\<close> for the \<open>contexting\<close> object: a missing length is 0, a
  number is itself, and an array of functions or a function converts to NaN, hence 0.
\<close>

fun to_length :: "context_slot option \<Rightarrow> nat" where
  "to_length None = 0"
| "to_length (Some (LengthNumber n)) = n"
| "to_length (Some (ListenerArray ls)) = 0"
| "to_length (Some (ListenerFn f)) = 0"

text \<open>
  \<open>Array.prototype.push.call(O, item)\<close> on a plain object: the item is stored under the
  key \<open>ToString(len)\<close> and \<open>length\<close> becomes \<open>len + 1\<close>.
\<close>

definition ArrayPush_object ::
  "(string \<rightharpoonup> context_slot) \<Rightarrow> fnid \<Rightarrow> (string \<rightharpoonup> context_slot)" where
  "ArrayPush_object obj item =
     (let len = to_length (obj ''length'')
      in (obj(string_of_nat len \<mapsto> ListenerFn item))(''length'' \<mapsto> LengthNumber (len + 1)))"

text \<open>
  \<open>eventTarget.dispatchEvent\<close>: the new adapter state, the calls made and the returned
  boolean, or the thrown error.
\<close>

fun dispatchEvent :: "WireAdapter \<Rightarrow> wire_event \<Rightarrow> error + (WireAdapter \<times> call list \<times> bool)" where
  "dispatchEvent a (ValueChangedEvent v) = Inr (a, [Call (callback a) [v]], False)"
| "dispatchEvent a (LinkContextEvent uid cb) =
     (case contextualizer a of
        None \<Rightarrow> Inr (a, [], False)
      | Some ctx \<Rightarrow>
          (let a' = (if contexting a uid \<noteq> None
                     then a\<lparr>contexting := ArrayPush_object (contexting a) cb\<rparr>
                     else a\<lparr>contexting := (contexting a)(uid \<mapsto> ListenerArray [cb])\<rparr>)
           in Inr (a', [Call ctx [JStr uid]], False)))"
| "dispatchEvent a (OtherEvent t) = Inl (InvalidEventType t)"

text \<open>
  \<open>addEventListener\<close> and \<open>removeEventListener\<close>; \<open>removeListener\<close> splices out the
  first occurrence.
\<close>

definition addEventListener :: "WireAdapter \<Rightarrow> string \<Rightarrow> fnid \<Rightarrow> error + WireAdapter" where
  "addEventListener a type listener =
     (if type = ''connect'' then Inr (a\<lparr>connecting := connecting a @ [listener]\<rparr>)
      else if type = ''disconnect'' then Inr (a\<lparr>disconnecting := disconnecting a @ [listener]\<rparr>)
      else if type = ''config'' then Inr (a\<lparr>configuring := configuring a @ [listener]\<rparr>)
      else Inl (InvalidEventType type))"

definition removeListener :: "fnid list \<Rightarrow> fnid \<Rightarrow> fnid list" where
  "removeListener listeners toRemove = remove1 toRemove listeners"

definition removeEventListener :: "WireAdapter \<Rightarrow> string \<Rightarrow> fnid \<Rightarrow> error + WireAdapter" where
  "removeEventListener a type listener =
     (if type = ''connect'' then Inr (a\<lparr>connecting := removeListener (connecting a) listener\<rparr>)
      else if type = ''disconnect''
        then Inr (a\<lparr>disconnecting := removeListener (disconnecting a) listener\<rparr>)
      else if type = ''config''
        then Inr (a\<lparr>configuring := removeListener (configuring a) listener\<rparr>)
      else Inl (InvalidEventType type))"

text \<open>The four methods of the adapter (\<open>context\<close> is a keyword of Isabelle, so they carry
  the class name as a prefix): each returns the calls it makes, in order.\<close>

definition WireAdapter_update :: "WireAdapter \<Rightarrow> jsobject \<Rightarrow> call list" where
  "WireAdapter_update a config = map (\<lambda>listener. Call listener [JObj config]) (configuring a)"

text \<open>
  \<open>context(uid, value)\<close>: \<open>forEach.call(listeners, ...)\<close> visits the indexed elements
  of \<open>listeners\<close>; a function or a number stored in the slot has none.
\<close>

definition WireAdapter_context :: "WireAdapter \<Rightarrow> string \<Rightarrow> jsval \<Rightarrow> call list" where
  "WireAdapter_context a uid v =
     (case contexting a uid of
        None \<Rightarrow> []
      | Some (ListenerArray listeners) \<Rightarrow> map (\<lambda>listener. Call listener [v]) listeners
      | Some (ListenerFn f) \<Rightarrow> []
      | Some (LengthNumber n) \<Rightarrow> [])"

definition WireAdapter_connect :: "WireAdapter \<Rightarrow> call list" where
  "WireAdapter_connect a = map (\<lambda>listener. Call listener []) (connecting a)"

definition WireAdapter_disconnect :: "WireAdapter \<Rightarrow> call list" where
  "WireAdapter_disconnect a = map (\<lambda>listener. Call listener []) (disconnecting a)"

subsection \<open>The deprecated \<open>register\<close>\<close>









section \<open>Property descriptors and the prototype\<close>

text \<open>
  A function found in a descriptor is either written by the component author or is one
  of the closures that the descriptor factories create; the latter are named after the
  factory and carry what the closure captures.
\<close>

datatype fn =
    AuthorFn nat
  | PublicPropertyGet string
  | PublicPropertySet string
  | PublicAccessorGet string fn
  | PublicAccessorSet string "fn option"
  | WireFieldGet string
  | WireFieldSet string
  | TrackGet string
  | TrackSet string
  | ObservedFieldGet string
  | ObservedFieldSet string

datatype propval = FnVal fn | PlainVal jsval

text \<open>
  A descriptor as \<open>getOwnPropertyDescriptor\<close> returns it: a data descriptor (value,
  writable, enumerable, configurable) or an accessor descriptor (get, set, enumerable,
  configurable).
\<close>

datatype descriptor =
    DataDescriptor propval bool bool bool
  | AccessorDescriptor "fn option" "fn option" bool bool

type_synonym prototype = "string \<rightharpoonup> descriptor"

fun value_isFunction :: "descriptor \<Rightarrow> bool" where
  "value_isFunction (DataDescriptor (FnVal f) w e c) = True"
| "value_isFunction d = False"

fun writable_isFalse :: "descriptor \<Rightarrow> bool" where
  "writable_isFalse (DataDescriptor v w e c) = (\<not> w)"
| "writable_isFalse d = False"

fun desc_get :: "descriptor \<Rightarrow> fn option" where
  "desc_get (AccessorDescriptor g s e c) = g"
| "desc_get d = None"

fun desc_set :: "descriptor \<Rightarrow> fn option" where
  "desc_set (AccessorDescriptor g s e c) = s"
| "desc_set d = None"

fun desc_enumerable :: "descriptor \<Rightarrow> bool" where
  "desc_enumerable (AccessorDescriptor g s e c) = e"
| "desc_enumerable (DataDescriptor v w e c) = e"

fun desc_configurable :: "descriptor \<Rightarrow> bool" where
  "desc_configurable (AccessorDescriptor g s e c) = c"
| "desc_configurable (DataDescriptor v w e c) = c"

text \<open>
  \<open>defineProperty(proto, name, descriptor)\<close>: redefining a non-configurable property
  with one of the freshly created descriptors throws; prototypes are extensible.
\<close>

definition defineProperty :: "prototype \<Rightarrow> string \<Rightarrow> descriptor \<Rightarrow> error + prototype" where
  "defineProperty proto name d =
     (case proto name of
        None \<Rightarrow> Inr (proto(name \<mapsto> d))
      | Some old \<Rightarrow>
          (if desc_configurable old then Inr (proto(name \<mapsto> d))
           else Inl (TypeError (''Cannot redefine property: '' @ name))))"

text \<open>The descriptor factories of api.ts and wire.ts.\<close>

definition createPublicPropertyDescriptor :: "string \<Rightarrow> descriptor" where
  "createPublicPropertyDescriptor key =
     AccessorDescriptor (Some (PublicPropertyGet key)) (Some (PublicPropertySet key)) True True"

definition createPublicAccessorDescriptor :: "string \<Rightarrow> descriptor option \<Rightarrow> error + descriptor" where
  "createPublicAccessorDescriptor key d =
     (case d of
        None \<Rightarrow> Inl (TypeError ''Cannot destructure undefined'')
      | Some d' \<Rightarrow>
          (case desc_get d' of
             None \<Rightarrow> Inl (TypeError [])
           | Some g \<Rightarrow>
               Inr (AccessorDescriptor (Some (PublicAccessorGet key g))
                      (Some (PublicAccessorSet key (desc_set d')))
                      (desc_enumerable d') (desc_configurable d'))))"

definition internalWireFieldDecorator :: "string \<Rightarrow> descriptor" where
  "internalWireFieldDecorator key =
     AccessorDescriptor (Some (WireFieldGet key)) (Some (WireFieldSet key)) True True"

text \<open>
  Modelled from the spec: \<open>internalTrackDecorator\<close> (./track) and
  \<open>createObservedFieldPropertyDescriptor\<close> (../observed-fields) are not among the
  sources. Each returns an accessor descriptor for the field whose read notifies an
  observation and whose write notifies a mutation.
\<close>

definition internalTrackDecorator :: "string \<Rightarrow> descriptor" where
  "internalTrackDecorator key =
     AccessorDescriptor (Some (TrackGet key)) (Some (TrackSet key)) True True"

definition createObservedFieldPropertyDescriptor :: "string \<Rightarrow> descriptor" where
  "createObservedFieldPropertyDescriptor key =
     AccessorDescriptor (Some (ObservedFieldGet key)) (Some (ObservedFieldSet key)) True True"

section \<open>Compiler metadata and the registries (register.ts, wire.ts)\<close>

datatype PropType = Field | SetOnly | GetOnly | GetSet

fun PropType_value :: "PropType \<Rightarrow> nat" where
  "PropType_value Field = 0"
| "PropType_value SetOnly = 1"
| "PropType_value GetOnly = 2"
| "PropType_value GetSet = 3"

record PropCompilerDef =
  config :: PropType
  prop_type :: string

text \<open>
  In \<open>WireCompilerDef\<close> the member \<open>method\<close> is the field \<open>wire_method\<close>, since
  \<open>method\<close> is a command of Isabelle. An adapter constructor may carry an \<open>adapter\<close>
  member (callable adapters), which then replaces it when the wire definition is stored.
\<close>

datatype WireAdapterConstructor = AdapterCtor nat "WireAdapterConstructor option"

fun adapter_member :: "WireAdapterConstructor \<Rightarrow> WireAdapterConstructor option" where
  "adapter_member (AdapterCtor n m) = m"

record WireCompilerDef =
  wire_method :: "nat option"
  adapter :: WireAdapterConstructor
  params :: "(string \<times> string) list option"
  static :: "jsobject option"

text \<open>
  Objects of the metadata are given by their entries in \<open>for...in\<close> order; \<open>fields\<close>
  (here \<open>fields_array\<close>, since the record package owns the name) and
  \<open>publicMethods\<close> are arrays.
\<close>

record RegisterDecoratorMeta =
  publicMethods :: "string list option"
  publicProps :: "(string \<times> PropCompilerDef) list option"
  track :: "(string \<times> nat) list option"
  wire :: "(string \<times> WireCompilerDef) list option"
  fields_array :: "string list option"

record DecoratorMeta =
  apiMethods :: "string list"
  apiFields :: "string list"
  wiredMethods :: "string list"
  wiredFields :: "string list"

record WireDef =
  def_method :: "propval option"
  def_adapter :: WireAdapterConstructor
  configCallback :: configCallback

type_synonym ctor = nat

text \<open>
  The module-level state: the prototype of every component class, \<open>WireMetaMap\<close>,
  \<open>signedDecoratorToMetaMap\<close> and \<open>refCache\<close>.
\<close>

record registry =
  prototypes :: "ctor \<Rightarrow> prototype"
  WireMetaMap :: "ctor \<rightharpoonup> (string \<times> WireDef) list"
  signedDecoratorToMetaMap :: "ctor \<rightharpoonup> DecoratorMeta"
  refCache :: "string \<rightharpoonup> ReactiveParameter"

subsection \<open>Validation of the compiler's metadata\<close>

text \<open>
  Modelled from the spec: ../../shared/assert is not among the sources. \<open>assert.fail\<close>
  throws, and \<open>assert.isTrue\<close> and \<open>assert.invariant\<close> throw when their condition
  is false. Every validation runs only when \<open>process.env.NODE_ENV\<close> is not
  \<open>production\<close>; it yields the error thrown, if any.
\<close>

definition validateObservedField :: "bool \<Rightarrow> prototype \<Rightarrow> string \<Rightarrow> error option" where
  "validateObservedField production proto fieldName =
     (if \<not> production then
        (case proto fieldName of
           Some d \<Rightarrow>
             Some (AssertError (''Compiler Error: Invalid field '' @ fieldName @ '' declaration.''))
         | None \<Rightarrow> None)
      else None)"

definition validateFieldDecoratedWithTrack :: "bool \<Rightarrow> prototype \<Rightarrow> string \<Rightarrow> error option" where
  "validateFieldDecoratedWithTrack production proto fieldName =
     (if \<not> production then
        (case proto fieldName of
           Some d \<Rightarrow>
             Some (AssertError (''Compiler Error: Invalid @track '' @ fieldName @ '' declaration.''))
         | None \<Rightarrow> None)
      else None)"

definition validateFieldDecoratedWithWire :: "bool \<Rightarrow> prototype \<Rightarrow> string \<Rightarrow> error option" where
  "validateFieldDecoratedWithWire production proto fieldName =
     (if \<not> production then
        (case proto fieldName of
           Some d \<Rightarrow>
             Some (AssertError
               (''Compiler Error: Invalid @wire(...) '' @ fieldName @ '' field declaration.''))
         | None \<Rightarrow> None)
      else None)"

definition invalid_method :: "prototype \<Rightarrow> string \<Rightarrow> bool" where
  "invalid_method proto methodName =
     (case proto methodName of
        None \<Rightarrow> True
      | Some d \<Rightarrow> \<not> value_isFunction d \<or> writable_isFalse d)"

definition validateMethodDecoratedWithWire :: "bool \<Rightarrow> prototype \<Rightarrow> string \<Rightarrow> error option" where
  "validateMethodDecoratedWithWire production proto methodName =
     (if \<not> production then
        (if invalid_method proto methodName
         then Some (AssertError
                (''Compiler Error: Invalid @wire(...) '' @ methodName @ '' method declaration.''))
         else None)
      else None)"

definition validateFieldDecoratedWithApi :: "bool \<Rightarrow> prototype \<Rightarrow> string \<Rightarrow> error option" where
  "validateFieldDecoratedWithApi production proto fieldName =
     (if \<not> production then
        (case proto fieldName of
           Some d \<Rightarrow>
             Some (AssertError
               (''Compiler Error: Invalid @api '' @ fieldName @ '' field declaration.''))
         | None \<Rightarrow> None)
      else None)"

definition validateAccessorDecoratedWithApi :: "bool \<Rightarrow> prototype \<Rightarrow> string \<Rightarrow> error option" where
  "validateAccessorDecoratedWithApi production proto fieldName =
     (if \<not> production then
        (case proto fieldName of
           None \<Rightarrow>
             Some (AssertError
               (''Compiler Error: Invalid @api get '' @ fieldName @ '' accessor declaration.''))
         | Some d \<Rightarrow>
             (if desc_set d \<noteq> None then
                (if desc_get d \<noteq> None then None
                 else Some (AssertError
                        (''Compiler Error: Missing getter for property '' @ fieldName)))
              else if desc_get d = None then
                Some (AssertError
                  (''Compiler Error: Missing @api get '' @ fieldName @ '' accessor declaration.''))
              else None))
      else None)"

definition validateMethodDecoratedWithApi :: "bool \<Rightarrow> prototype \<Rightarrow> string \<Rightarrow> error option" where
  "validateMethodDecoratedWithApi production proto methodName =
     (if \<not> production then
        (if invalid_method proto methodName
         then Some (AssertError
                (''Compiler Error: Invalid @api '' @ methodName @ '' method declaration.''))
         else None)
      else None)"

subsection \<open>Sequencing of steps that may throw\<close>

definition bind_result :: "error + 'a \<Rightarrow> ('a \<Rightarrow> error + 'b) \<Rightarrow> error + 'b" where
  "bind_result r f = (case r of Inl e \<Rightarrow> Inl e | Inr x \<Rightarrow> f x)"

definition guard :: "error option \<Rightarrow> (error + 'b) \<Rightarrow> error + 'b" where
  "guard v k = (case v of Some e \<Rightarrow> Inl e | None \<Rightarrow> k)"

subsection \<open>\<open>registerDecorators\<close>\<close>

text \<open>
  The loop over \<open>publicProps\<close>. A throw aborts the evaluation of the module that
  registers the class; the model returns the error and drops the partial state.
\<close>

definition publicProps_step ::
  "bool \<Rightarrow> string \<times> PropCompilerDef \<Rightarrow> prototype \<times> string list
     \<Rightarrow> error + (prototype \<times> string list)" where
  "publicProps_step production entry acc =
     (case (entry, acc) of
        ((fieldName, propConfig), (proto, apiFields_acc)) \<Rightarrow>
          bind_result
            (if PropType_value (config propConfig) > 0 then
               guard (validateAccessorDecoratedWithApi production proto fieldName)
                 (createPublicAccessorDescriptor fieldName (proto fieldName))
             else
               guard (validateFieldDecoratedWithApi production proto fieldName)
                 (Inr (createPublicPropertyDescriptor fieldName)))
            (\<lambda>d. bind_result (defineProperty proto fieldName d)
                    (\<lambda>proto'. Inr (proto', apiFields_acc @ [fieldName]))))"

fun publicProps_loop ::
  "bool \<Rightarrow> (string \<times> PropCompilerDef) list \<Rightarrow> prototype \<times> string list
     \<Rightarrow> error + (prototype \<times> string list)" where
  "publicProps_loop production [] acc = Inr acc"
| "publicProps_loop production (entry # rest) acc =
     bind_result (publicProps_step production entry acc) (publicProps_loop production rest)"

fun publicMethods_loop ::
  "bool \<Rightarrow> prototype \<Rightarrow> string list \<Rightarrow> string list \<Rightarrow> error + string list" where
  "publicMethods_loop production proto [] apiMethods_acc = Inr apiMethods_acc"
| "publicMethods_loop production proto (methodName # rest) apiMethods_acc =
     guard (validateMethodDecoratedWithApi production proto methodName)
       (publicMethods_loop production proto rest (apiMethods_acc @ [methodName]))"

text \<open>
  \<open>proto[name]\<close> as read for a wired method: the value of an own data property. Getter
  results and inherited members are outside the model and read as \<open>undefined\<close>.
\<close>

definition proto_member :: "prototype \<Rightarrow> string \<Rightarrow> propval option" where
  "proto_member proto name =
     (case proto name of
        Some (DataDescriptor v w e c) \<Rightarrow> (if v = PlainVal JUndefined then None else Some v)
      | Some (AccessorDescriptor g s e c) \<Rightarrow> None
      | None \<Rightarrow> None)"

definition storeDef ::
  "ctor \<Rightarrow> string \<Rightarrow> WireDef \<Rightarrow> (ctor \<rightharpoonup> (string \<times> WireDef) list)
     \<Rightarrow> (ctor \<rightharpoonup> (string \<times> WireDef) list)" where
  "storeDef Ctor key d wm =
     wm(Ctor \<mapsto> obj_set (case wm Ctor of None \<Rightarrow> [] | Some r \<Rightarrow> r) key d)"

definition callable_adapter :: "WireAdapterConstructor \<Rightarrow> WireAdapterConstructor" where
  "callable_adapter a = (case adapter_member a of Some a' \<Rightarrow> a' | None \<Rightarrow> a)"

definition storeWiredMethodMeta ::
  "ctor \<Rightarrow> string \<Rightarrow> WireAdapterConstructor \<Rightarrow> propval option \<Rightarrow> configCallback
     \<Rightarrow> (ctor \<rightharpoonup> (string \<times> WireDef) list) \<Rightarrow> (ctor \<rightharpoonup> (string \<times> WireDef) list)" where
  "storeWiredMethodMeta Ctor methodName a m cb wm =
     storeDef Ctor methodName
       \<lparr>def_method = m, def_adapter = callable_adapter a, configCallback = cb\<rparr> wm"

definition storeWiredFieldMeta ::
  "ctor \<Rightarrow> string \<Rightarrow> WireAdapterConstructor \<Rightarrow> configCallback
     \<Rightarrow> (ctor \<rightharpoonup> (string \<times> WireDef) list) \<Rightarrow> (ctor \<rightharpoonup> (string \<times> WireDef) list)" where
  "storeWiredFieldMeta Ctor fieldName a cb wm =
     storeDef Ctor fieldName
       \<lparr>def_method = None, def_adapter = callable_adapter a, configCallback = cb\<rparr> wm"

text \<open>The loop over \<open>wire\<close>: one step per field or method name.\<close>

definition wire_step ::
  "bool \<Rightarrow> ctor \<Rightarrow> string \<times> WireCompilerDef \<Rightarrow> registry \<times> string list \<times> string list
     \<Rightarrow> error + (registry \<times> string list \<times> string list)" where
  "wire_step production Ctor entry acc =
     (case (entry, acc) of
        ((fieldOrMethodName, wdef), (st, wiredMethods_acc, wiredFields_acc)) \<Rightarrow>
          (case buildConfigExtractor (refCache st) (static wdef) (params wdef) of
             (cb, cache') \<Rightarrow>
               (let st1 = st\<lparr>refCache := cache'\<rparr>;
                    proto = prototypes st1 Ctor
                in if wire_method wdef = Some 1 then
                     guard (validateMethodDecoratedWithWire production proto fieldOrMethodName)
                       (Inr (st1\<lparr>WireMetaMap :=
                                  storeWiredMethodMeta Ctor fieldOrMethodName (adapter wdef)
                                    (proto_member proto fieldOrMethodName) cb (WireMetaMap st1)\<rparr>,
                             wiredMethods_acc @ [fieldOrMethodName], wiredFields_acc))
                   else
                     guard (validateFieldDecoratedWithWire production proto fieldOrMethodName)
                       (bind_result
                          (defineProperty proto fieldOrMethodName
                             (internalWireFieldDecorator fieldOrMethodName))
                          (\<lambda>proto'.
                             Inr (st1\<lparr>WireMetaMap :=
                                        storeWiredFieldMeta Ctor fieldOrMethodName (adapter wdef)
                                          cb (WireMetaMap st1),
                                      prototypes := (prototypes st1)(Ctor := proto')\<rparr>,
                                  wiredMethods_acc, wiredFields_acc @ [fieldOrMethodName]))))))"

fun wire_loop ::
  "bool \<Rightarrow> ctor \<Rightarrow> (string \<times> WireCompilerDef) list \<Rightarrow> registry \<times> string list \<times> string list
     \<Rightarrow> error + (registry \<times> string list \<times> string list)" where
  "wire_loop production Ctor [] acc = Inr acc"
| "wire_loop production Ctor (entry # rest) acc =
     bind_result (wire_step production Ctor entry acc) (wire_loop production Ctor rest)"

text \<open>The loops over \<open>track\<close> and \<open>fields\<close>, given the keys that \<open>for...in\<close> visits.\<close>

fun track_loop :: "bool \<Rightarrow> string list \<Rightarrow> prototype \<Rightarrow> error + prototype" where
  "track_loop production [] proto = Inr proto"
| "track_loop production (fieldName # rest) proto =
     guard (validateFieldDecoratedWithTrack production proto fieldName)
       (bind_result (defineProperty proto fieldName (internalTrackDecorator fieldName))
          (track_loop production rest))"

fun fields_loop :: "bool \<Rightarrow> string list \<Rightarrow> prototype \<Rightarrow> error + prototype" where
  "fields_loop production [] proto = Inr proto"
| "fields_loop production (fieldName # rest) proto =
     guard (validateObservedField production proto fieldName)
       (bind_result
          (defineProperty proto fieldName (createObservedFieldPropertyDescriptor fieldName))
          (fields_loop production rest))"

text \<open>
  \<open>for (const fieldName in fields)\<close> on an array visits its index keys
  \<open>'0'\<close>, \<open>'1'\<close>, ..., not its elements.
\<close>

definition for_in_array :: "'a list \<Rightarrow> string list" where
  "for_in_array xs = map string_of_nat [0..<length xs]"

definition setDecoratorsMeta :: "ctor \<Rightarrow> DecoratorMeta \<Rightarrow> registry \<Rightarrow> registry" where
  "setDecoratorsMeta Ctor meta st =
     st\<lparr>signedDecoratorToMetaMap := (signedDecoratorToMetaMap st)(Ctor \<mapsto> meta)\<rparr>"

definition registerDecorators ::
  "bool \<Rightarrow> ctor \<Rightarrow> RegisterDecoratorMeta \<Rightarrow> registry \<Rightarrow> error + registry" where
  "registerDecorators production Ctor meta st =
     bind_result
       (case publicProps meta of
          None \<Rightarrow> Inr (prototypes st Ctor, [])
        | Some pp \<Rightarrow> publicProps_loop production pp (prototypes st Ctor, []))
       (\<lambda>(proto1, apiFields_acc).
          bind_result
            (case publicMethods meta of
               None \<Rightarrow> Inr []
             | Some pm \<Rightarrow> publicMethods_loop production proto1 pm [])
            (\<lambda>apiMethods_acc.
               bind_result
                 (let st1 = st\<lparr>prototypes := (prototypes st)(Ctor := proto1)\<rparr>
                  in case wire meta of
                       None \<Rightarrow> Inr (st1, [], [])
                     | Some w \<Rightarrow> wire_loop production Ctor w (st1, [], []))
                 (\<lambda>(st2, wiredMethods_acc, wiredFields_acc).
                    bind_result
                      (case track meta of
                         None \<Rightarrow> Inr (prototypes st2 Ctor)
                       | Some t \<Rightarrow> track_loop production (map fst t) (prototypes st2 Ctor))
                      (\<lambda>proto3.
                         bind_result
                           (case fields_array meta of
                              None \<Rightarrow> Inr proto3
                            | Some fs \<Rightarrow> fields_loop production (for_in_array fs) proto3)
                           (\<lambda>proto4.
                              Inr (setDecoratorsMeta Ctor
                                     \<lparr>apiMethods = apiMethods_acc, apiFields = apiFields_acc,
                                      wiredMethods = wiredMethods_acc,
                                      wiredFields = wiredFields_acc\<rparr>
                                     (st2\<lparr>prototypes := (prototypes st2)(Ctor := proto4)\<rparr>)))))))"

definition defaultMeta :: DecoratorMeta where
  "defaultMeta = \<lparr>apiMethods = [], apiFields = [], wiredMethods = [], wiredFields = []\<rparr>"

text \<open>
  \<open>getDecoratorsMeta\<close>: \<open>Map.get\<close> and \<open>isUndefined\<close> do not throw, so the model is a
  function without an error result.
\<close>

definition getDecoratorsMeta :: "registry \<Rightarrow> ctor \<Rightarrow> DecoratorMeta" where
  "getDecoratorsMeta st Ctor =
     (case signedDecoratorToMetaMap st Ctor of None \<Rightarrow> defaultMeta | Some meta \<Rightarrow> meta)"

text \<open>Registering several classes in turn, as the modules of a program are evaluated.\<close>

fun register_all ::
  "bool \<Rightarrow> (ctor \<times> RegisterDecoratorMeta) list \<Rightarrow> registry \<Rightarrow> error + registry" where
  "register_all production [] st = Inr st"
| "register_all production ((Ctor, meta) # rest) st =
     bind_result (registerDecorators production Ctor meta st) (register_all production rest)"

definition init_registry :: "(ctor \<Rightarrow> prototype) \<Rightarrow> registry" where
  "init_registry protos =
     \<lparr>prototypes = protos, WireMetaMap = Map.empty, signedDecoratorToMetaMap = Map.empty,
      refCache = Map.empty\<rparr>"

section \<open>Component instances and the installed descriptors (api.ts, wire.ts)\<close>

text \<open>
  Modelled from the spec: the lifecycle queries and the mutation tracker are not among
  the sources. The engine state holds the build mode, whether a render is in progress
  and which instance is under construction; \<open>valueObserved\<close>, \<open>valueMutated\<close>,
  \<open>assert.logError\<close> and \<open>invokeComponentCallback\<close> are recorded as effects, in order.
  \<open>global_name\<close> is what the free identifier \<open>name\<close> resolves to outside any
  function of wire.ts (\<open>window.name\<close> in a browser), if anything.
\<close>

record engine =
  NODE_ENV_production :: bool
  isRendering :: bool
  vmBeingConstructed :: "nat option"
  global_name :: "string option"

datatype VMState = created | connected | disconnected

record VM =
  component :: nat
  cmpProps :: "string \<rightharpoonup> jsval"
  cmpFields :: "string \<rightharpoonup> jsval"
  isDirty :: bool
  state :: VMState

datatype effect =
    valueObserved nat string
  | valueMutated nat string
  | logError string
  | invokeComponentCallback propval "jsval list"

definition isBeingConstructed :: "engine \<Rightarrow> VM \<Rightarrow> bool" where
  "isBeingConstructed env vm = (vmBeingConstructed env = Some (component vm))"

text \<open>Reading a key of one of the per-instance storage tables.\<close>

definition store_get :: "(string \<rightharpoonup> jsval) \<Rightarrow> string \<Rightarrow> jsval" where
  "store_get m key = (case m key of None \<Rightarrow> JUndefined | Some v \<Rightarrow> v)"

text \<open>
  The \<open>get\<close> and \<open>set\<close> of \<open>createPublicPropertyDescriptor(key)\<close>. The instance
  \<open>this\<close> is given by its VM, so \<open>getComponentVM(this)\<close> is a VM.
\<close>

definition PublicProperty_get :: "string \<Rightarrow> engine \<Rightarrow> VM \<Rightarrow> effect list \<Rightarrow> jsval \<times> effect list" where
  "PublicProperty_get key env vm log =
     (if isBeingConstructed env vm then
        (JUndefined,
         if \<not> NODE_ENV_production env
         then log @ [logError (''constructor cannot read the value of property '' @ key)]
         else log)
      else (store_get (cmpProps vm) key, log @ [valueObserved (component vm) key]))"

definition PublicProperty_set ::
  "string \<Rightarrow> engine \<Rightarrow> VM \<Rightarrow> effect list \<Rightarrow> jsval \<Rightarrow> error + (VM \<times> effect list)" where
  "PublicProperty_set key env vm log newValue =
     (if \<not> NODE_ENV_production env \<and> isRendering env then
        Inl (AssertError (''render() method has side effects on the state of '' @ key))
      else
        (let vm' = vm\<lparr>cmpProps := (cmpProps vm)(key \<mapsto> newValue)\<rparr>
         in Inr (vm', if isDirty vm' = False
                      then log @ [valueMutated (component vm') key] else log)))"

text \<open>The \<open>get\<close> and \<open>set\<close> of \<open>internalWireFieldDecorator(key)\<close>.\<close>

definition WireField_get :: "string \<Rightarrow> VM \<Rightarrow> effect list \<Rightarrow> jsval \<times> effect list" where
  "WireField_get key vm log =
     (store_get (cmpFields vm) key, log @ [valueObserved (component vm) key])"

definition WireField_set :: "string \<Rightarrow> VM \<Rightarrow> effect list \<Rightarrow> jsval \<Rightarrow> VM \<times> effect list" where
  "WireField_set key vm log v = (vm, log)"

text \<open>
  Calling a function of a descriptor on an instance. The result is \<open>None\<close> for a function
  whose body is not part of the sources (author code, track and observed fields).
\<close>

fun call_getter :: "fn \<Rightarrow> engine \<Rightarrow> VM \<Rightarrow> effect list \<Rightarrow> (error + (jsval \<times> effect list)) option" where
  "call_getter (PublicPropertyGet key) env vm log = Some (Inr (PublicProperty_get key env vm log))"
| "call_getter (PublicAccessorGet key g) env vm log = call_getter g env vm log"
| "call_getter (WireFieldGet key) env vm log = Some (Inr (WireField_get key vm log))"
| "call_getter f env vm log = None"

fun call_setter ::
  "fn \<Rightarrow> engine \<Rightarrow> VM \<Rightarrow> effect list \<Rightarrow> jsval \<Rightarrow> (error + (VM \<times> effect list)) option" where
  "call_setter (PublicPropertySet key) env vm log v = Some (PublicProperty_set key env vm log v)"
| "call_setter (PublicAccessorSet key s) env vm log v =
     (if \<not> NODE_ENV_production env \<and> isRendering env then
        Some (Inl (AssertError (''render() method has side effects on the state of '' @ key)))
      else
        (case s of
           Some s' \<Rightarrow> call_setter s' env vm log v
         | None \<Rightarrow>
             (if \<not> NODE_ENV_production env then
                Some (Inl (AssertError
                  (''Invalid attempt to set a new value for property '' @ key)))
              else Some (Inr (vm, log)))))"
| "call_setter (WireFieldSet key) env vm log v = Some (Inr (WireField_set key vm log v))"
| "call_setter f env vm log v = None"

text \<open>
  \<open>instance.name\<close> and \<open>instance.name = v\<close> for a property that the prototype of the
  class defines by an accessor descriptor. Other properties are outside the model
  (\<open>None\<close>). Modules are strict code: assigning to an accessor without a setter throws.
\<close>

definition instance_get ::
  "prototype \<Rightarrow> engine \<Rightarrow> VM \<Rightarrow> effect list \<Rightarrow> string \<Rightarrow> (error + (jsval \<times> effect list)) option" where
  "instance_get proto env vm log name =
     (case proto name of
        Some (AccessorDescriptor (Some g) s e c) \<Rightarrow> call_getter g env vm log
      | Some (AccessorDescriptor None s e c) \<Rightarrow> Some (Inr (JUndefined, log))
      | Some (DataDescriptor v w e c) \<Rightarrow> None
      | None \<Rightarrow> None)"

definition instance_set ::
  "prototype \<Rightarrow> engine \<Rightarrow> VM \<Rightarrow> effect list \<Rightarrow> string \<Rightarrow> jsval
     \<Rightarrow> (error + (VM \<times> effect list)) option" where
  "instance_set proto env vm log name v =
     (case proto name of
        Some (AccessorDescriptor g (Some s) e c) \<Rightarrow> call_setter s env vm log v
      | Some (AccessorDescriptor g None e c) \<Rightarrow>
          Some (Inl (TypeError (''Cannot set property '' @ name @ '' which has only a getter'')))
      | Some (DataDescriptor x w e c) \<Rightarrow> None
      | None \<Rightarrow> None)"

section \<open>The wire connector (wire.ts)\<close>

text \<open>
  The two data callbacks; each definition gives what the returned closure does when it
  is called with a value. \<open>createFieldDataCallback(vm)\<close> receives no field name: its
  closure uses the free identifier \<open>name\<close>, which throws a ReferenceError when nothing
  binds it.
\<close>

datatype dataCallback = FieldDataCallback | MethodDataCallback propval

definition createFieldDataCallback ::
  "engine \<Rightarrow> VM \<Rightarrow> effect list \<Rightarrow> jsval \<Rightarrow> error + (VM \<times> effect list)" where
  "createFieldDataCallback env vm log v =
     (case global_name env of
        None \<Rightarrow> Inl (ReferenceError ''name is not defined'')
      | Some name \<Rightarrow>
          Inr (vm\<lparr>cmpFields := (cmpFields vm)(name \<mapsto> v)\<rparr>,
               log @ [valueMutated (component vm) name]))"

definition createMethodDataCallback ::
  "propval \<Rightarrow> VM \<Rightarrow> effect list \<Rightarrow> jsval \<Rightarrow> error + (VM \<times> effect list)" where
  "createMethodDataCallback m vm log v = Inr (vm, log @ [invokeComponentCallback m [v]])"

fun call_dataCallback ::
  "dataCallback \<Rightarrow> engine \<Rightarrow> VM \<Rightarrow> effect list \<Rightarrow> jsval \<Rightarrow> error + (VM \<times> effect list)" where
  "call_dataCallback FieldDataCallback env vm log v = createFieldDataCallback env vm log v"
| "call_dataCallback (MethodDataCallback m) env vm log v = createMethodDataCallback m vm log v"

text \<open>
  The connector. The adapter instance and the reactive observer are objects of other
  modules: the calls made on them are recorded as events. The closure given to
  \<open>Promise.resolve().then\<close> is a queued micro-task.
\<close>

datatype microtask = CollectConfig

datatype connector_event =
    AdapterNew WireAdapterConstructor dataCallback
  | AdapterUpdate jsobject
  | ObserverObserve "string list"
  | ObserverReset
  | BoundaryError error
  | UnhandledRejection error

record connector =
  hasPendingConfig :: bool
  microtasks :: "microtask list"
  wireDef :: WireDef
  dataCb :: dataCallback
  events :: "connector_event list"

text \<open>
  \<open>createConnector(vm, def)\<close>, with the component given as the host object that the
  config callback reads. The job runs under boundary protection, which catches a throw of
  the initial config computation. The constructor of the adapter is code of the adapter's
  author and is taken to return.
\<close>

definition createConnector :: "WireDef \<Rightarrow> jsobject \<Rightarrow> connector" where
  "createConnector d host =
     (let cb = (case def_method d of
                  None \<Rightarrow> FieldDataCallback
                | Some m \<Rightarrow> MethodDataCallback m);
          c = \<lparr>hasPendingConfig = False, microtasks = [], wireDef = d, dataCb = cb,
               events = [AdapterNew (def_adapter d) cb]\<rparr>
      in (case configCallback d host of
            (reads, Inl e) \<Rightarrow> c\<lparr>events := events c @ [ObserverObserve reads, BoundaryError e]\<rparr>
          | (reads, Inr cfg) \<Rightarrow>
              c\<lparr>events := events c @ [AdapterUpdate cfg, ObserverObserve reads]\<rparr>))"

text \<open>The callback of the reactive observer: one invocation per mutation notification.\<close>

definition ro_callback :: "connector \<Rightarrow> connector" where
  "ro_callback c =
     (if hasPendingConfig c = False
      then c\<lparr>hasPendingConfig := True, microtasks := microtasks c @ [CollectConfig]\<rparr>
      else c)"

text \<open>Running the oldest queued micro-task of the connector, if there is one.\<close>

definition run_microtask :: "jsobject \<Rightarrow> connector \<Rightarrow> connector" where
  "run_microtask host c =
     (case microtasks c of
        [] \<Rightarrow> c
      | t # ts \<Rightarrow>
          (let c1 = c\<lparr>microtasks := ts, hasPendingConfig := False,
                      events := events c @ [ObserverReset]\<rparr>
           in (case configCallback (wireDef c1) host of
                 (reads, Inl e) \<Rightarrow> c1\<lparr>events := events c1 @ [UnhandledRejection e]\<rparr>
               | (reads, Inr cfg) \<Rightarrow> c1\<lparr>events := events c1 @ [AdapterUpdate cfg]\<rparr>)))"

text \<open>The number of \<open>update\<close> calls that the adapter has received.\<close>

fun is_update :: "connector_event \<Rightarrow> bool" where
  "is_update (AdapterUpdate cfg) = True"
| "is_update ev = False"

definition update_calls :: "connector \<Rightarrow> nat" where
  "update_calls c = length (filter is_update (events c))"

text \<open>Dispatching a sequence of events on an adapter, collecting the calls made.\<close>

fun dispatch_all :: "WireAdapter \<Rightarrow> wire_event list \<Rightarrow> error + (WireAdapter \<times> call list)" where
  "dispatch_all a [] = Inr (a, [])"
| "dispatch_all a (evt # rest) =
     bind_result (dispatchEvent a evt)
       (\<lambda>(a', calls, r). bind_result (dispatch_all a' rest)
          (\<lambda>(a'', calls'). Inr (a'', calls @ calls')))"

text \<open>
  \<open>installWireAdapters(vm)\<close>: one connector per entry of the class's wire hash, in
  \<open>for...in\<close> order. The model keeps the entry's name beside each connector; the
  source passes only the definition to \<open>createConnector\<close>.
\<close>

definition installWireAdapters ::
  "bool \<Rightarrow> registry \<Rightarrow> ctor \<Rightarrow> jsobject \<Rightarrow> error + (string \<times> connector) list" where
  "installWireAdapters production st Ctor host =
     (case WireMetaMap st Ctor of
        None \<Rightarrow>
          (if \<not> production
           then Inl (AssertError
                  ''Internal Error: wire adapters should only be installed in instances with at least one wire declaration.'')
           else Inr [])
      | Some meta \<Rightarrow> Inr (map (\<lambda>(name, d). (name, createConnector d host)) meta))"

text \<open>
  What happens to a connector after its creation: mutation notifications that reach the
  observer's callback, and micro-task checkpoints that run a queued task against the
  component's state at that time.
\<close>

datatype connector_step = Notify | RunMicrotask jsobject

fun connector_steps :: "connector_step list \<Rightarrow> connector \<Rightarrow> connector" where
  "connector_steps [] c = c"
| "connector_steps (Notify # rest) c = connector_steps rest (ro_callback c)"
| "connector_steps (RunMicrotask host # rest) c = connector_steps rest (run_microtask host c)"

text \<open>The invariant of a connector: a task is queued exactly while the flag is set.\<close>

definition connector_inv :: "connector \<Rightarrow> bool" where
  "connector_inv c = (microtasks c = (if hasPendingConfig c then [CollectConfig] else []))"

section \<open>Example inputs\<close>

text \<open>
  A development build with no render in progress and no instance under construction, in
  a browser whose \<open>window.name\<close> is the empty string; a connected, clean instance; and
  the metadata of three classes: one with a wired field \<open>data\<close> whose static config is
  \<open>{kind: 'x'}\<close>, one with a public field \<open>x\<close>, and one with the observed fields
  \<open>foo\<close> and \<open>bar\<close>. No class has members of its own before registration.
\<close>

definition dev_env :: engine where
  "dev_env = \<lparr>NODE_ENV_production = False, isRendering = False, vmBeingConstructed = None,
              global_name = Some []\<rparr>"

definition vm1 :: VM where
  "vm1 = \<lparr>component = 1, cmpProps = Map.empty, cmpFields = Map.empty, isDirty = False,
          state = connected\<rparr>"

definition no_meta :: RegisterDecoratorMeta where
  "no_meta = \<lparr>publicMethods = None, publicProps = None, track = None, wire = None,
              fields_array = None\<rparr>"

definition wire_data_def :: WireCompilerDef where
  "wire_data_def = \<lparr>wire_method = None, adapter = AdapterCtor 7 None, params = None,
                    static = Some [(''kind'', JStr ''x'')]\<rparr>"

definition wired_field_meta :: RegisterDecoratorMeta where
  "wired_field_meta = no_meta\<lparr>wire := Some [(''data'', wire_data_def)]\<rparr>"

definition public_field_meta :: RegisterDecoratorMeta where
  "public_field_meta =
     no_meta\<lparr>publicProps := Some [(''x'', \<lparr>config = Field, prop_type = ''any''\<rparr>)]\<rparr>"

definition observed_fields_meta :: RegisterDecoratorMeta where
  "observed_fields_meta = no_meta\<lparr>fields_array := Some [''foo'', ''bar'']\<rparr>"

definition empty_registry :: registry where
  "empty_registry = init_registry (\<lambda>Ctor. Map.empty)"

text \<open>The wire definition that registration stores for the wired field \<open>data\<close>.\<close>

definition wire_data_WireDef :: WireDef where
  "wire_data_WireDef =
     \<lparr>def_method = None, def_adapter = AdapterCtor 7 None,
      configCallback = fst (buildConfigExtractor Map.empty (Some [(''kind'', JStr ''x'')]) None)\<rparr>"

section \<open>Auxiliary facts\<close>

lemma bind_result_simps [simp]:
  "bind_result (Inl e) f = Inl e"
  "bind_result (Inr x) f = f x"
  by (simp_all add: bind_result_def)

lemma guard_simps [simp]:
  "guard (Some e) k = Inl e"
  "guard None k = k"
  by (simp_all add: guard_def)

lemma bind_result_Inr: "bind_result r f = Inr y \<longleftrightarrow> (\<exists>x. r = Inr x \<and> f x = Inr y)"
  by (cases r) simp_all

lemma guard_Inr: "guard v k = Inr y \<longleftrightarrow> (v = None \<and> k = Inr y)"
  by (cases v) simp_all


lemma string_of_nat_0: "string_of_nat 0 = ''0''"
  by (simp add: string_of_nat.simps digit_char_def)

section \<open>Context links of the wire adapter\<close>

text \<open>
  Once a uid has a listener array, a further link event for it leaves the array as it
  is, unless the uid is the index key or \<open>length\<close>, which the push overwrites with a
  function or a number.
\<close>

lemma dispatchEvent_link_known_uid:
  assumes "contextualizer a = Some ctx" and "contexting a uid = Some slot"
  shows "dispatchEvent a (LinkContextEvent uid cb) =
           Inr (a\<lparr>contexting := ArrayPush_object (contexting a) cb\<rparr>, [Call ctx [JStr uid]], False)"
  using assms by simp

lemma ArrayPush_object_other_key:
  assumes "uid \<noteq> ''length''" and "uid \<noteq> string_of_nat (to_length (obj ''length''))"
  shows "ArrayPush_object obj cb uid = obj uid"
  using assms by (simp add: ArrayPush_object_def Let_def)

lemma link_known_uid_keeps_listener_array:
  assumes "contextualizer a = Some ctx"
    and "contexting a uid = Some (ListenerArray listeners)"
    and "uid \<noteq> ''length''"
    and "uid \<noteq> string_of_nat (to_length (contexting a ''length''))"
  shows "\<exists>a'. dispatchEvent a (LinkContextEvent uid cb) = Inr (a', [Call ctx [JStr uid]], False)
              \<and> contexting a' uid = Some (ListenerArray listeners)"
  using assms dispatchEvent_link_known_uid [of a ctx uid "ListenerArray listeners" cb]
    ArrayPush_object_other_key [of uid "contexting a" cb]
  by simp

text \<open>
  C1. An adapter is constructed with a contextualizer (function 1) and receives two
  context-link events for the uid \<open>uid\<close>, with the callbacks 10 and 11. The second
  callback is pushed onto the \<open>contexting\<close> object itself, under the key \<open>0\<close>: the
  listener array of the uid still holds callback 10 only, and \<open>context(uid, 5)\<close> calls
  callback 10 and not callback 11.
\<close>

theorem link_same_uid_second_callback_not_accumulated:
  "map_sum id
     (\<lambda>(a, calls). (contexting a ''uid'', contexting a ''0'', contexting a ''length'',
                     WireAdapter_context a ''uid'' (JNum 5), calls))
     (dispatch_all (WireAdapter_new 0 (Some 1))
        [LinkContextEvent ''uid'' 10, LinkContextEvent ''uid'' 11])
   = Inr (Some (ListenerArray [10]), Some (ListenerFn 11), Some (LengthNumber 1),
          [Call 10 [JNum 5]], [Call 1 [JStr ''uid''], Call 1 [JStr ''uid'']])"
  by (simp add: WireAdapter_new_def ArrayPush_object_def string_of_nat_0
      WireAdapter_context_def)

section \<open>Reactive parameter values\<close>

lemma split_dot_not_Nil: "split_dot s \<noteq> []"
  by (induction s) (auto split: list.splits)

text \<open>
  With a non-empty tail the loop is left in its first round: a host value that is not
  nullish gives \<open>undefined\<close>, and a nullish one makes the member read throw.
\<close>

lemma getReactiveParameterValue_nonempty_tail:
  assumes "tail rp \<noteq> []"
  shows "getReactiveParameterValue host rp =
           (if not_nullish (obj_get host (head rp)) then Inr JUndefined
            else if obj_get host (head rp) = JNull
              then Inl (TypeError ''Cannot read properties of null'')
              else Inl (TypeError ''Cannot read properties of undefined''))"
proof -
  obtain segment rest where t: "tail rp = segment # rest"
    using assms by (cases "tail rp") auto
  show ?thesis
    by (auto simp: getReactiveParameterValue_def t not_nullish_def)
qed

text \<open>
  C3. The parameter \<open>foo.bar.baz\<close> is evaluated against the host
  \<open>{foo: {bar: {baz: 1}}}\<close>, where every intermediate value is an object: the result
  is \<open>undefined\<close>, not 1.
\<close>

theorem getReactiveParameterValue_non_null_path_undefined:
  "getReactiveParameterValue [(''foo'', JObj [(''bar'', JObj [(''baz'', JNum 1)])])]
     (fst (buildReactiveParameter Map.empty ''foo.bar.baz'')) = Inr JUndefined"
  by (simp add: getReactiveParameterValue_def buildReactiveParameter_def obj_get_def
      not_nullish_def Let_def)

text \<open>On the host \<open>{foo: null}\<close> the parameter \<open>foo.bar\<close> throws instead of giving \<open>undefined\<close>.\<close>

lemma getReactiveParameterValue_null_head_throws:
  "getReactiveParameterValue [(''foo'', JNull)]
     (fst (buildReactiveParameter Map.empty ''foo.bar'')) =
   Inl (TypeError ''Cannot read properties of null'')"
  by (simp add: getReactiveParameterValue_def buildReactiveParameter_def obj_get_def
      not_nullish_def Let_def)

section \<open>Config extractors\<close>

text \<open>
  C8. For the static config \<open>{kind: 'x'}\<close> and absent dynamic params, the extractor that
  \<open>buildConfigExtractor\<close> returns gives, for every host (and whatever the cache holds),
  the object \<open>{kind: 'x'}\<close> and reads no property of the host.
\<close>

theorem buildConfigExtractor_static_only:
  "fst (buildConfigExtractor cache (Some [(''kind'', JStr ''x'')]) None) host
     = ([], Inr [(''kind'', JStr ''x'')])"
  by (simp add: buildConfigExtractor_def computeReactiveParams_def assign_def)

section \<open>The deprecated \<open>register\<close>\<close>




section \<open>Facts about registration\<close>

lemma defineProperty_Inr:
  "defineProperty proto name d = Inr proto' \<Longrightarrow> proto' = proto(name \<mapsto> d)"
  by (auto simp: defineProperty_def split: option.splits if_splits)

text \<open>A successful step for a wired field, or for a public field, installs its descriptor.\<close>

lemma wire_step_field_installs:
  assumes "wire_step production Ctor (name, wdef) (st, ms, fs) = Inr (st', ms', fs')"
    and "wire_method wdef \<noteq> Some 1"
  shows "prototypes st' Ctor name = Some (internalWireFieldDecorator name) \<and> fs' = fs @ [name]"
  using assms
  by (auto simp: wire_step_def Let_def bind_result_Inr guard_Inr split: prod.splits
      dest!: defineProperty_Inr)

lemma publicProps_step_field_installs:
  assumes "publicProps_step production (name, propConfig) (proto, af) = Inr (proto', af')"
    and "config propConfig = Field"
  shows "proto' name = Some (createPublicPropertyDescriptor name) \<and> af' = af @ [name]"
  using assms
  by (auto simp: publicProps_step_def bind_result_Inr guard_Inr dest!: defineProperty_Inr)

text \<open>The loop over \<open>fields\<close> installs an observed-field descriptor under every key it visits.\<close>

lemma fields_loop_result:
  assumes "fields_loop production ks proto = Inr proto'"
  shows "proto' n =
           (if n \<in> set ks then Some (createObservedFieldPropertyDescriptor n) else proto n)"
  using assms
proof (induction ks arbitrary: proto)
  case Nil
  then show ?case by simp
next
  case (Cons k ks)
  then obtain mid
    where d: "defineProperty proto k (createObservedFieldPropertyDescriptor k) = Inr mid"
      and l: "fields_loop production ks mid = Inr proto'"
    by (auto simp: guard_Inr bind_result_Inr)
  from defineProperty_Inr [OF d]
  have mid: "mid = proto(k \<mapsto> createObservedFieldPropertyDescriptor k)" .
  from Cons.IH [OF l] mid show ?case by auto
qed

lemma for_in_array_index: "i < length xs \<Longrightarrow> string_of_nat i \<in> set (for_in_array xs)"
  by (simp add: for_in_array_def)

lemma string_of_nat_Suc_0: "string_of_nat (Suc 0) = ''1''"
  by (simp add: string_of_nat.simps digit_char_def)

text \<open>Only the last statement of \<open>registerDecorators\<close> touches the metadata registry.\<close>

lemma wire_step_meta:
  assumes "wire_step production Ctor entry (st, ms, fs) = Inr (st', ms', fs')"
  shows "signedDecoratorToMetaMap st' = signedDecoratorToMetaMap st"
  using assms
  by (auto simp: wire_step_def Let_def bind_result_Inr guard_Inr split: prod.splits if_splits)

lemma wire_loop_meta:
  assumes "wire_loop production Ctor entries acc = Inr acc'"
  shows "signedDecoratorToMetaMap (fst acc') = signedDecoratorToMetaMap (fst acc)"
  using assms
proof (induction entries arbitrary: acc)
  case Nil
  then show ?case by simp
next
  case (Cons entry entries)
  then obtain mid where s: "wire_step production Ctor entry acc = Inr mid"
    and l: "wire_loop production Ctor entries mid = Inr acc'"
    by (auto simp: bind_result_Inr)
  obtain st ms fs where acc: "acc = (st, ms, fs)" by (cases acc) auto
  obtain st1 ms1 fs1 where mid: "mid = (st1, ms1, fs1)" by (cases mid) auto
  from s acc mid have "signedDecoratorToMetaMap st1 = signedDecoratorToMetaMap st"
    using wire_step_meta by blast
  moreover from Cons.IH [OF l] mid
  have "signedDecoratorToMetaMap (fst acc') = signedDecoratorToMetaMap st1"
    by simp
  ultimately show ?case using acc by simp
qed

lemma registerDecorators_meta:
  assumes "registerDecorators production Ctor meta st = Inr st'"
  shows "\<exists>m. signedDecoratorToMetaMap st' = (signedDecoratorToMetaMap st)(Ctor \<mapsto> m)"
proof -
  from assms obtain proto1 af am st2 wm wf proto4 where
    w: "(case wire meta of
           None \<Rightarrow> Inr (st\<lparr>prototypes := (prototypes st)(Ctor := proto1)\<rparr>, [], [])
         | Some w \<Rightarrow>
             wire_loop production Ctor w
               (st\<lparr>prototypes := (prototypes st)(Ctor := proto1)\<rparr>, [], [])) = Inr (st2, wm, wf)"
    and fin: "st' = setDecoratorsMeta Ctor
                \<lparr>apiMethods = am, apiFields = af, wiredMethods = wm, wiredFields = wf\<rparr>
                (st2\<lparr>prototypes := (prototypes st2)(Ctor := proto4)\<rparr>)"
    by (auto simp: registerDecorators_def bind_result_Inr Let_def)
  have "signedDecoratorToMetaMap st2 = signedDecoratorToMetaMap st"
  proof (cases "wire meta")
    case None
    with w show ?thesis by auto
  next
    case (Some ws)
    with w have "wire_loop production Ctor ws
                   (st\<lparr>prototypes := (prototypes st)(Ctor := proto1)\<rparr>, [], []) = Inr (st2, wm, wf)"
      by simp
    from wire_loop_meta [OF this] show ?thesis by simp
  qed
  with fin show ?thesis by (auto simp: setDecoratorsMeta_def)
qed

lemma register_all_meta:
  assumes "register_all production regs st = Inr st'" and "Ctor \<notin> fst ` set regs"
  shows "signedDecoratorToMetaMap st' Ctor = signedDecoratorToMetaMap st Ctor"
  using assms
proof (induction regs arbitrary: st)
  case Nil
  then show ?case by simp
next
  case (Cons reg regs)
  obtain C meta where reg: "reg = (C, meta)" by (cases reg) auto
  with Cons.prems obtain st1 where r: "registerDecorators production C meta st = Inr st1"
    and rest: "register_all production regs st1 = Inr st'"
    by (auto simp: bind_result_Inr)
  from Cons.prems reg have ne: "C \<noteq> Ctor" and notin: "Ctor \<notin> fst ` set regs" by auto
  from registerDecorators_meta [OF r] ne
  have "signedDecoratorToMetaMap st1 Ctor = signedDecoratorToMetaMap st Ctor"
    by auto
  with Cons.IH [OF rest notin] show ?case by simp
qed

subsection \<open>The example classes, registered\<close>

lemma register_wired_field_meta:
  "registerDecorators False 0 wired_field_meta empty_registry =
     Inr (empty_registry
           \<lparr>prototypes :=
              (\<lambda>Ctor. Map.empty)(0 := [''data'' \<mapsto> internalWireFieldDecorator ''data'']),
            WireMetaMap := [0 \<mapsto> [(''data'', wire_data_WireDef)]],
            signedDecoratorToMetaMap :=
              [0 \<mapsto> \<lparr>apiMethods = [], apiFields = [], wiredMethods = [],
                      wiredFields = [''data'']\<rparr>]\<rparr>)"
  by (simp add: registerDecorators_def wired_field_meta_def no_meta_def wire_data_def_def
      empty_registry_def init_registry_def wire_step_def buildConfigExtractor_def
      validateFieldDecoratedWithWire_def defineProperty_def setDecoratorsMeta_def
      storeWiredFieldMeta_def storeDef_def callable_adapter_def wire_data_WireDef_def)

lemma register_public_field_meta:
  "registerDecorators False 0 public_field_meta empty_registry =
     Inr (empty_registry
           \<lparr>prototypes :=
              (\<lambda>Ctor. Map.empty)(0 := [''x'' \<mapsto> createPublicPropertyDescriptor ''x'']),
            signedDecoratorToMetaMap :=
              [0 \<mapsto> \<lparr>apiMethods = [], apiFields = [''x''], wiredMethods = [],
                      wiredFields = []\<rparr>]\<rparr>)"
  by (simp add: registerDecorators_def public_field_meta_def no_meta_def
      empty_registry_def init_registry_def publicProps_step_def
      validateFieldDecoratedWithApi_def defineProperty_def setDecoratorsMeta_def)

lemma register_observed_fields_meta:
  "registerDecorators False 0 observed_fields_meta empty_registry =
     Inr (empty_registry
           \<lparr>prototypes :=
              (\<lambda>Ctor. Map.empty)
                (0 := [''0'' \<mapsto> createObservedFieldPropertyDescriptor ''0'',
                       ''1'' \<mapsto> createObservedFieldPropertyDescriptor ''1'']),
            signedDecoratorToMetaMap :=
              [0 \<mapsto> \<lparr>apiMethods = [], apiFields = [], wiredMethods = [],
                      wiredFields = []\<rparr>]\<rparr>)"
  by (simp add: registerDecorators_def observed_fields_meta_def no_meta_def
      empty_registry_def init_registry_def for_in_array_def upt_rec
      string_of_nat_0 string_of_nat_Suc_0
      validateObservedField_def defineProperty_def setDecoratorsMeta_def)

subsection \<open>When the loop over \<open>fields\<close> succeeds\<close>

text \<open>
  Index keys are pairwise distinct, so the loop over a \<open>fields\<close> array succeeds whenever
  the prototype has no own property under an index key: registration with the array then
  returns if registration without it does.
\<close>

lemma digit_value_digit_char:
  assumes "d < 10"
  shows "digit_value (digit_char d) = d"
proof -
  from assms consider "d = 0" | "d = 1" | "d = 2" | "d = 3" | "d = 4"
    | "d = 5" | "d = 6" | "d = 7" | "d = 8" | "d = 9"
    by atomize_elim arith
  then show ?thesis
    by cases (simp_all add: digit_char_def digit_value_def)
qed

lemma nat_of_string_of_nat: "nat_of_string (string_of_nat n) = n"
proof (induction n rule: string_of_nat.induct)
  case (1 n)
  show ?case
  proof (cases "n < 10")
    case True
    then show ?thesis
      by (simp add: string_of_nat.simps [of n] nat_of_string_def digit_value_digit_char)
  next
    case False
    with 1 have "nat_of_string (string_of_nat (n div 10)) = n div 10" by simp
    with False show ?thesis
      by (simp add: string_of_nat.simps [of n] nat_of_string_def digit_value_digit_char)
  qed
qed

lemma inj_string_of_nat: "inj string_of_nat"
  by (rule inj_on_inverseI [where g = nat_of_string]) (rule nat_of_string_of_nat)

lemma distinct_for_in_array: "distinct (for_in_array xs)"
  by (simp add: for_in_array_def distinct_map inj_on_subset [OF inj_string_of_nat])

lemma fields_loop_succeeds:
  assumes "distinct ks" and "\<forall>k\<in>set ks. proto k = None"
  shows "\<exists>proto'. fields_loop production ks proto = Inr proto'"
  using assms
proof (induction ks arbitrary: proto)
  case Nil
  then show ?case by simp
next
  case (Cons k ks)
  let ?mid = "proto(k \<mapsto> createObservedFieldPropertyDescriptor k)"
  from Cons.prems have "distinct ks" and "\<forall>k'\<in>set ks. ?mid k' = None"
    by auto
  from Cons.IH [OF this] obtain proto' where "fields_loop production ks ?mid = Inr proto'"
    by blast
  with Cons.prems show ?case
    by (simp add: validateObservedField_def defineProperty_def)
qed

lemma registerDecorators_with_fields_succeeds:
  assumes r0: "registerDecorators production Ctor (meta\<lparr>fields_array := None\<rparr>) st = Inr st0"
    and free: "\<forall>k\<in>set (for_in_array fs). prototypes st0 Ctor k = None"
  shows "\<exists>st'. registerDecorators production Ctor (meta\<lparr>fields_array := Some fs\<rparr>) st = Inr st'"
proof -
  from r0 obtain proto1 af am st2 wm wf proto3 where
    p: "(case publicProps meta of
           None \<Rightarrow> Inr (prototypes st Ctor, [])
         | Some pp \<Rightarrow> publicProps_loop production pp (prototypes st Ctor, [])) = Inr (proto1, af)"
    and m: "(case publicMethods meta of
           None \<Rightarrow> Inr []
         | Some pm \<Rightarrow> publicMethods_loop production proto1 pm []) = Inr am"
    and w: "(case wire meta of
           None \<Rightarrow> Inr (st\<lparr>prototypes := (prototypes st)(Ctor := proto1)\<rparr>, [], [])
         | Some w \<Rightarrow>
             wire_loop production Ctor w
               (st\<lparr>prototypes := (prototypes st)(Ctor := proto1)\<rparr>, [], [])) = Inr (st2, wm, wf)"
    and t: "(case track meta of
           None \<Rightarrow> Inr (prototypes st2 Ctor)
         | Some t \<Rightarrow> track_loop production (map fst t) (prototypes st2 Ctor)) = Inr proto3"
    and fin: "st0 = setDecoratorsMeta Ctor
                \<lparr>apiMethods = am, apiFields = af, wiredMethods = wm, wiredFields = wf\<rparr>
                (st2\<lparr>prototypes := (prototypes st2)(Ctor := proto3)\<rparr>)"
    by (auto simp: registerDecorators_def bind_result_Inr Let_def)
  from fin free have "\<forall>k\<in>set (for_in_array fs). proto3 k = None"
    by (simp add: setDecoratorsMeta_def)
  from fields_loop_succeeds [OF distinct_for_in_array this]
  obtain proto4 where "fields_loop production (for_in_array fs) proto3 = Inr proto4"
    by blast
  with p m w t show ?thesis
    by (simp add: registerDecorators_def Let_def)
qed

section \<open>The metadata registry\<close>

text \<open>
  C6. A class without an entry in the metadata registry gets the default record, whose
  four lists are empty; and after any sequence of successful registrations that starts
  from the empty registries, a class that was not among the registered ones has no entry.
  \<open>getDecoratorsMeta\<close> has no failing branch: it returns a record for every registry
  state and every class.
\<close>

theorem getDecoratorsMeta_unregistered_default:
  "(signedDecoratorToMetaMap st Ctor = None \<longrightarrow> getDecoratorsMeta st Ctor = defaultMeta)
   \<and> apiMethods defaultMeta = [] \<and> apiFields defaultMeta = []
   \<and> wiredMethods defaultMeta = [] \<and> wiredFields defaultMeta = []
   \<and> (register_all production regs (init_registry protos) = Inr st' \<and> Ctor \<notin> fst ` set regs
        \<longrightarrow> getDecoratorsMeta st' Ctor = defaultMeta)"
proof -
  have a: "signedDecoratorToMetaMap st Ctor = None \<longrightarrow> getDecoratorsMeta st Ctor = defaultMeta"
    by (simp add: getDecoratorsMeta_def)
  have b: "register_all production regs (init_registry protos) = Inr st'
             \<and> Ctor \<notin> fst ` set regs \<longrightarrow> getDecoratorsMeta st' Ctor = defaultMeta"
  proof (intro impI, elim conjE)
    assume r: "register_all production regs (init_registry protos) = Inr st'"
      and n: "Ctor \<notin> fst ` set regs"
    from register_all_meta [OF r n] have "signedDecoratorToMetaMap st' Ctor = None"
      by (simp add: init_registry_def)
    then show "getDecoratorsMeta st' Ctor = defaultMeta"
      by (simp add: getDecoratorsMeta_def)
  qed
  show ?thesis using a b by (simp add: defaultMeta_def)
qed

text \<open>
  After the class 0 with the public field \<open>x\<close> is registered, class 1 still gets the
  default record, while class 0 gets its own.
\<close>

theorem getDecoratorsMeta_unregistered_default_witness:
  "register_all False [(0, public_field_meta)] empty_registry
     = Inr (projr (register_all False [(0, public_field_meta)] empty_registry))
   \<and> (1::nat) \<notin> fst ` set [(0::nat, public_field_meta)]
   \<and> getDecoratorsMeta (projr (register_all False [(0, public_field_meta)] empty_registry)) 1
       = defaultMeta
   \<and> apiFields (getDecoratorsMeta
        (projr (register_all False [(0, public_field_meta)] empty_registry)) 0) = [''x'']"
proof -
  have r: "register_all False [(0, public_field_meta)] (init_registry (\<lambda>Ctor. Map.empty))
     = Inr (projr (register_all False [(0, public_field_meta)] (init_registry (\<lambda>Ctor. Map.empty))))"
    using register_public_field_meta by (simp add: empty_registry_def)
  have n: "(1::nat) \<notin> fst ` set [(0::nat, public_field_meta)]"
    by simp
  have own: "apiFields (getDecoratorsMeta
        (projr (register_all False [(0, public_field_meta)] empty_registry)) 0) = [''x'']"
    by (simp add: register_public_field_meta getDecoratorsMeta_def)
  from getDecoratorsMeta_unregistered_default
         [of empty_registry 1 False "[(0, public_field_meta)]" "\<lambda>Ctor. Map.empty"
            "projr (register_all False [(0, public_field_meta)] (init_registry (\<lambda>Ctor. Map.empty)))"]
       r n own
  show ?thesis by (simp add: empty_registry_def)
qed

section \<open>Observed fields\<close>

text \<open>
  C9. When \<open>registerDecorators\<close> succeeds on metadata with a \<open>fields\<close> array, the
  prototype holds an observed-field descriptor under every index key of the array
  (\<open>'0'\<close>, \<open>'1'\<close>, ...), made for that index key. Registration without the \<open>fields\<close>
  array succeeds as well, and the two resulting prototypes agree on every name that is
  not an index key: a listed field name gets no descriptor from the array.
\<close>

theorem fields_descriptors_under_index_keys:
  assumes reg: "registerDecorators production Ctor meta st = Inr st'"
    and fs: "fields_array meta = Some fs"
  shows "(\<forall>i<length fs. prototypes st' Ctor (string_of_nat i) =
             Some (createObservedFieldPropertyDescriptor (string_of_nat i)))
       \<and> (\<exists>st0. registerDecorators production Ctor (meta\<lparr>fields_array := None\<rparr>) st = Inr st0
             \<and> (\<forall>n. n \<notin> set (for_in_array fs) \<longrightarrow>
                    prototypes st' Ctor n = prototypes st0 Ctor n))"
proof -
  from reg fs obtain proto1 af am st2 wm wf proto3 proto4 where
    p: "(case publicProps meta of
           None \<Rightarrow> Inr (prototypes st Ctor, [])
         | Some pp \<Rightarrow> publicProps_loop production pp (prototypes st Ctor, [])) = Inr (proto1, af)"
    and m: "(case publicMethods meta of
           None \<Rightarrow> Inr []
         | Some pm \<Rightarrow> publicMethods_loop production proto1 pm []) = Inr am"
    and w: "(case wire meta of
           None \<Rightarrow> Inr (st\<lparr>prototypes := (prototypes st)(Ctor := proto1)\<rparr>, [], [])
         | Some w \<Rightarrow>
             wire_loop production Ctor w
               (st\<lparr>prototypes := (prototypes st)(Ctor := proto1)\<rparr>, [], [])) = Inr (st2, wm, wf)"
    and t: "(case track meta of
           None \<Rightarrow> Inr (prototypes st2 Ctor)
         | Some t \<Rightarrow> track_loop production (map fst t) (prototypes st2 Ctor)) = Inr proto3"
    and f: "fields_loop production (for_in_array fs) proto3 = Inr proto4"
    and fin: "st' = setDecoratorsMeta Ctor
                \<lparr>apiMethods = am, apiFields = af, wiredMethods = wm, wiredFields = wf\<rparr>
                (st2\<lparr>prototypes := (prototypes st2)(Ctor := proto4)\<rparr>)"
    by (auto simp: registerDecorators_def bind_result_Inr Let_def)
  have p4: "\<And>n. proto4 n =
              (if n \<in> set (for_in_array fs)
               then Some (createObservedFieldPropertyDescriptor n) else proto3 n)"
    using fields_loop_result [OF f] by simp
  have st': "prototypes st' Ctor = proto4"
    using fin by (simp add: setDecoratorsMeta_def)
  have idx: "\<forall>i<length fs. prototypes st' Ctor (string_of_nat i) =
               Some (createObservedFieldPropertyDescriptor (string_of_nat i))"
    using st' p4 by (simp add: for_in_array_index)
  let ?st0 = "setDecoratorsMeta Ctor
                \<lparr>apiMethods = am, apiFields = af, wiredMethods = wm, wiredFields = wf\<rparr>
                (st2\<lparr>prototypes := (prototypes st2)(Ctor := proto3)\<rparr>)"
  have r0: "registerDecorators production Ctor (meta\<lparr>fields_array := None\<rparr>) st = Inr ?st0"
    using p m w t by (simp add: registerDecorators_def Let_def)
  have "\<forall>n. n \<notin> set (for_in_array fs) \<longrightarrow> prototypes st' Ctor n = prototypes ?st0 Ctor n"
    using st' p4 by (simp add: setDecoratorsMeta_def)
  with r0 idx show ?thesis by blast
qed

text \<open>
  The class with \<open>fields: ['foo', 'bar']\<close>: descriptors sit under \<open>'0'\<close> and \<open>'1'\<close>, and
  neither \<open>foo\<close> nor \<open>bar\<close> has one.
\<close>

theorem fields_descriptors_under_index_keys_witness:
  "registerDecorators False 0 observed_fields_meta empty_registry
     = Inr (projr (registerDecorators False 0 observed_fields_meta empty_registry))
   \<and> fields_array observed_fields_meta = Some [''foo'', ''bar'']
   \<and> prototypes (projr (registerDecorators False 0 observed_fields_meta empty_registry)) 0 ''0''
       = Some (createObservedFieldPropertyDescriptor ''0'')
   \<and> prototypes (projr (registerDecorators False 0 observed_fields_meta empty_registry)) 0 ''1''
       = Some (createObservedFieldPropertyDescriptor ''1'')
   \<and> prototypes (projr (registerDecorators False 0 observed_fields_meta empty_registry)) 0 ''foo''
       = None
   \<and> prototypes (projr (registerDecorators False 0 observed_fields_meta empty_registry)) 0 ''bar''
       = None"
proof -
  have r: "registerDecorators False 0 observed_fields_meta empty_registry
     = Inr (projr (registerDecorators False 0 observed_fields_meta empty_registry))"
    by (simp add: register_observed_fields_meta)
  have f: "fields_array observed_fields_meta = Some [''foo'', ''bar'']"
    by (simp add: observed_fields_meta_def)
  have names: "prototypes (projr (registerDecorators False 0 observed_fields_meta empty_registry))
                 0 ''foo'' = None
             \<and> prototypes (projr (registerDecorators False 0 observed_fields_meta empty_registry))
                 0 ''bar'' = None"
    by (simp add: register_observed_fields_meta)
  from fields_descriptors_under_index_keys [OF r f]
  have "\<forall>i<length [''foo'', ''bar''].
          prototypes (projr (registerDecorators False 0 observed_fields_meta empty_registry)) 0
            (string_of_nat i) = Some (createObservedFieldPropertyDescriptor (string_of_nat i))"
    by blast
  then have "prototypes (projr (registerDecorators False 0 observed_fields_meta empty_registry)) 0
               (string_of_nat 0) = Some (createObservedFieldPropertyDescriptor (string_of_nat 0))
           \<and> prototypes (projr (registerDecorators False 0 observed_fields_meta empty_registry)) 0
               (string_of_nat (Suc 0))
               = Some (createObservedFieldPropertyDescriptor (string_of_nat (Suc 0)))"
    by simp
  with r f names show ?thesis
    by (simp only: string_of_nat_0 string_of_nat_Suc_0) 
qed

section \<open>Wired fields\<close>

text \<open>
  C7. When the prototype holds, under \<open>key\<close>, the descriptor that \<open>registerDecorators\<close>
  installs for a wired field, an assignment to the property returns normally and
  changes neither the instance (its wired value included) nor the notifications, and a
  read notifies \<open>valueObserved\<close> for the component and the key and returns the stored
  wired value.
\<close>

theorem wired_field_write_ignored_read_observed:
  assumes "proto key = Some (internalWireFieldDecorator key)"
  shows "instance_set proto env vm log key v = Some (Inr (vm, log))
       \<and> instance_get proto env vm log key =
           Some (Inr (store_get (cmpFields vm) key, log @ [valueObserved (component vm) key]))"
  using assms
  by (simp add: instance_set_def instance_get_def internalWireFieldDecorator_def
      WireField_set_def WireField_get_def)

text \<open>
  The class with the wired field \<open>data\<close>, registered in a development build, on an
  instance whose wired value is 3: assigning 4 changes nothing, reading gives 3.
\<close>

theorem wired_field_write_ignored_read_observed_witness:
  "prototypes (projr (registerDecorators False 0 wired_field_meta empty_registry)) 0 ''data''
     = Some (internalWireFieldDecorator ''data'')
   \<and> instance_set
       (prototypes (projr (registerDecorators False 0 wired_field_meta empty_registry)) 0)
       dev_env (vm1\<lparr>cmpFields := [''data'' \<mapsto> JNum 3]\<rparr>) [] ''data'' (JNum 4)
     = Some (Inr (vm1\<lparr>cmpFields := [''data'' \<mapsto> JNum 3]\<rparr>, []))
   \<and> instance_get
       (prototypes (projr (registerDecorators False 0 wired_field_meta empty_registry)) 0)
       dev_env (vm1\<lparr>cmpFields := [''data'' \<mapsto> JNum 3]\<rparr>) [] ''data''
     = Some (Inr (JNum 3, [valueObserved 1 ''data'']))"
proof -
  have h: "prototypes (projr (registerDecorators False 0 wired_field_meta empty_registry)) 0
             ''data'' = Some (internalWireFieldDecorator ''data'')"
    by (simp add: register_wired_field_meta)
  show ?thesis
    using h wired_field_write_ignored_read_observed
        [of "prototypes (projr (registerDecorators False 0 wired_field_meta empty_registry)) 0"
            "''data''" dev_env "vm1\<lparr>cmpFields := [''data'' \<mapsto> JNum 3]\<rparr>" "[]" "JNum 4", OF h]
    by (simp add: store_get_def vm1_def)
qed

text \<open>
  C2. The class with the wired field \<open>data\<close> is registered and its wire adapters are
  installed; the connector's data callback is the field callback. Delivering 7 through it
  stores 7 in the wired-field storage under the empty string, the value of the global
  \<open>name\<close>, and notifies a mutation of that key. A following read of the wired field
  \<open>data\<close> returns \<open>undefined\<close>.
\<close>

theorem field_data_callback_stores_under_global_name:
  "installWireAdapters False
     (projr (registerDecorators False 0 wired_field_meta empty_registry)) 0 []
     = Inr [(''data'', createConnector wire_data_WireDef [])]
   \<and> dataCb (createConnector wire_data_WireDef []) = FieldDataCallback
   \<and> call_dataCallback FieldDataCallback dev_env vm1 [] (JNum 7)
       = Inr (vm1\<lparr>cmpFields := [[] \<mapsto> JNum 7]\<rparr>, [valueMutated 1 []])
   \<and> instance_get
       (prototypes (projr (registerDecorators False 0 wired_field_meta empty_registry)) 0)
       dev_env (vm1\<lparr>cmpFields := [[] \<mapsto> JNum 7]\<rparr>) [] ''data''
     = Some (Inr (JUndefined, [valueObserved 1 ''data'']))"
  by (simp add: register_wired_field_meta installWireAdapters_def createConnector_def
      wire_data_WireDef_def buildConfigExtractor_def computeReactiveParams_def assign_def
      createFieldDataCallback_def instance_get_def internalWireFieldDecorator_def
      WireField_get_def store_get_def dev_env_def vm1_def)

text \<open>Whatever the wired field is called, the field callback writes the key \<open>name\<close>.\<close>

lemma createFieldDataCallback_key:
  assumes "global_name env = Some name"
  shows "call_dataCallback FieldDataCallback env vm log v =
           Inr (vm\<lparr>cmpFields := (cmpFields vm)(name \<mapsto> v)\<rparr>,
                log @ [valueMutated (component vm) name])"
  using assms by (simp add: createFieldDataCallback_def)

section \<open>Public fields\<close>

text \<open>
  C4, as stated, fails in a development build while a render is in progress: for the
  registered public field \<open>x\<close> of an instance that is neither under construction nor
  dirty, the assignment throws the assertion error, so nothing is stored and no
  mutation is notified.
\<close>

theorem public_field_set_while_rendering_throws:
  "instance_set
     (prototypes (projr (registerDecorators False 0 public_field_meta empty_registry)) 0)
     (dev_env\<lparr>isRendering := True\<rparr>) vm1 [] ''x'' (JNum 4)
   = Some (Inl (AssertError ''render() method has side effects on the state of x''))"
  by (simp add: register_public_field_meta instance_set_def createPublicPropertyDescriptor_def
      PublicProperty_set_def dev_env_def)

text \<open>
  C4, amended. Let the prototype hold, under \<open>x\<close>, the descriptor that
  \<open>registerDecorators\<close> installs for a public field. When the instance is not under
  construction, and either the build is a production build or no render is in progress,
  the assignment of \<open>v\<close> stores \<open>v\<close> under \<open>x\<close> in the public-property storage and
  changes nothing else of the instance; it adds exactly one \<open>valueMutated\<close>
  notification for the component and \<open>x\<close> when the instance is not dirty and none when
  it is dirty; and a following read returns \<open>v\<close>. In a development build, while a
  render is in progress, the assignment fails with the assertion error instead, for
  every field, instance and value.
\<close>

theorem public_field_set_then_get:
  assumes "proto x = Some (createPublicPropertyDescriptor x)"
  shows "(\<not> isBeingConstructed env vm \<and> (NODE_ENV_production env \<or> \<not> isRendering env) \<longrightarrow>
            instance_set proto env vm log x v =
              Some (Inr (vm\<lparr>cmpProps := (cmpProps vm)(x \<mapsto> v)\<rparr>,
                         if isDirty vm then log else log @ [valueMutated (component vm) x]))
            \<and> instance_get proto env (vm\<lparr>cmpProps := (cmpProps vm)(x \<mapsto> v)\<rparr>) log' x =
                Some (Inr (v, log' @ [valueObserved (component vm) x])))
       \<and> (\<not> NODE_ENV_production env \<and> isRendering env \<longrightarrow>
            instance_set proto env vm log x v =
              Some (Inl (AssertError (''render() method has side effects on the state of '' @ x))))"
proof -
  have stored: "\<not> isBeingConstructed env vm \<and> (NODE_ENV_production env \<or> \<not> isRendering env) \<longrightarrow>
            instance_set proto env vm log x v =
              Some (Inr (vm\<lparr>cmpProps := (cmpProps vm)(x \<mapsto> v)\<rparr>,
                         if isDirty vm then log else log @ [valueMutated (component vm) x]))
            \<and> instance_get proto env (vm\<lparr>cmpProps := (cmpProps vm)(x \<mapsto> v)\<rparr>) log' x =
                Some (Inr (v, log' @ [valueObserved (component vm) x]))"
    using assms
    by (auto simp: instance_set_def instance_get_def createPublicPropertyDescriptor_def
        PublicProperty_set_def PublicProperty_get_def isBeingConstructed_def store_get_def
        Let_def)
  have thrown: "\<not> NODE_ENV_production env \<and> isRendering env \<longrightarrow>
            instance_set proto env vm log x v =
              Some (Inl (AssertError (''render() method has side effects on the state of '' @ x)))"
    using assms
    by (simp add: instance_set_def createPublicPropertyDescriptor_def PublicProperty_set_def)
  from stored thrown show ?thesis by blast
qed

text \<open>
  The class with the public field \<open>x\<close>, registered in a development build: outside a
  render the assignment of 4 is stored, notified once and read back; during a render it
  throws.
\<close>

theorem public_field_set_then_get_witness:
  "prototypes (projr (registerDecorators False 0 public_field_meta empty_registry)) 0 ''x''
     = Some (createPublicPropertyDescriptor ''x'')
   \<and> \<not> isBeingConstructed dev_env vm1
   \<and> (NODE_ENV_production dev_env \<or> \<not> isRendering dev_env)
   \<and> instance_set
       (prototypes (projr (registerDecorators False 0 public_field_meta empty_registry)) 0)
       dev_env vm1 [] ''x'' (JNum 4)
     = Some (Inr (vm1\<lparr>cmpProps := [''x'' \<mapsto> JNum 4]\<rparr>, [valueMutated 1 ''x'']))
   \<and> instance_get
       (prototypes (projr (registerDecorators False 0 public_field_meta empty_registry)) 0)
       dev_env (vm1\<lparr>cmpProps := [''x'' \<mapsto> JNum 4]\<rparr>) [] ''x''
     = Some (Inr (JNum 4, [valueObserved 1 ''x'']))
   \<and> \<not> NODE_ENV_production (dev_env\<lparr>isRendering := True\<rparr>)
   \<and> isRendering (dev_env\<lparr>isRendering := True\<rparr>)
   \<and> instance_set
       (prototypes (projr (registerDecorators False 0 public_field_meta empty_registry)) 0)
       (dev_env\<lparr>isRendering := True\<rparr>) (vm1\<lparr>isDirty := True\<rparr>) [] ''x'' (JNum 5)
     = Some (Inl (AssertError ''render() method has side effects on the state of x''))"
proof -
  have h1: "prototypes (projr (registerDecorators False 0 public_field_meta empty_registry)) 0
              ''x'' = Some (createPublicPropertyDescriptor ''x'')"
    by (simp add: register_public_field_meta)
  have h2: "\<not> isBeingConstructed dev_env vm1"
    by (simp add: isBeingConstructed_def dev_env_def)
  have h3: "NODE_ENV_production dev_env \<or> \<not> isRendering dev_env"
    by (simp add: dev_env_def)
  have h4: "\<not> NODE_ENV_production (dev_env\<lparr>isRendering := True\<rparr>)
            \<and> isRendering (dev_env\<lparr>isRendering := True\<rparr>)"
    by (simp add: dev_env_def)
  show ?thesis
    using h1 h2 h3 h4
      public_field_set_then_get
        [of "prototypes (projr (registerDecorators False 0 public_field_meta empty_registry)) 0"
            "''x''" dev_env vm1 "[]" "JNum 4" "[]", OF h1]
      public_field_set_then_get
        [of "prototypes (projr (registerDecorators False 0 public_field_meta empty_registry)) 0"
            "''x''" "dev_env\<lparr>isRendering := True\<rparr>" "vm1\<lparr>isDirty := True\<rparr>" "[]" "JNum 5" "[]",
         OF h1]
    by (simp add: vm1_def)
qed

section \<open>Batching of config recomputation\<close>

lemma createConnector_state:
  "hasPendingConfig (createConnector d host) = False"
  "microtasks (createConnector d host) = []"
  by (auto simp: createConnector_def Let_def split: prod.splits sum.splits)

lemma createConnector_inv: "connector_inv (createConnector d host)"
  by (simp add: connector_inv_def createConnector_state)

lemma ro_callback_inv: "connector_inv c \<Longrightarrow> connector_inv (ro_callback c)"
  by (auto simp: connector_inv_def ro_callback_def)

lemma run_microtask_inv: "connector_inv c \<Longrightarrow> connector_inv (run_microtask host c)"
  by (auto simp: connector_inv_def run_microtask_def Let_def
      split: list.splits prod.splits sum.splits if_splits)

lemma connector_steps_inv: "connector_inv c \<Longrightarrow> connector_inv (connector_steps steps c)"
proof (induction steps arbitrary: c)
  case Nil
  then show ?case by simp
next
  case (Cons s steps)
  then show ?case by (cases s) (simp_all add: ro_callback_inv run_microtask_inv)
qed

lemma ro_callback_pending: "hasPendingConfig c \<Longrightarrow> ro_callback c = c"
  by (simp add: ro_callback_def)

lemma ro_callback_sets_pending: "hasPendingConfig (ro_callback c)"
  by (simp add: ro_callback_def)

lemma ro_callback_funpow_pending: "hasPendingConfig c \<Longrightarrow> (ro_callback ^^ n) c = c"
  by (induction n) (simp_all add: ro_callback_pending)

lemma ro_callback_funpow_Suc: "(ro_callback ^^ Suc n) c = ro_callback c"
proof -
  have "(ro_callback ^^ Suc n) c = (ro_callback ^^ n) (ro_callback c)"
    by (simp add: funpow_swap1)
  then show ?thesis
    by (simp add: ro_callback_funpow_pending ro_callback_sets_pending)
qed

lemma ro_callback_update_calls: "update_calls (ro_callback c) = update_calls c"
  by (simp add: ro_callback_def update_calls_def)

lemma run_microtask_clears:
  assumes "connector_inv c"
  shows "hasPendingConfig (run_microtask host c) = False \<and> microtasks (run_microtask host c) = []"
  using assms
  by (auto simp: connector_inv_def run_microtask_def Let_def
      split: list.splits prod.splits sum.splits if_splits)

lemma run_microtask_update_calls:
  "update_calls (run_microtask host c) \<le> update_calls c + 1"
  by (auto simp: run_microtask_def update_calls_def Let_def
      split: list.splits prod.splits sum.splits)

text \<open>
  C5. Take a connector in any state reached from its creation by notifications and
  micro-task checkpoints, and let \<open>n\<close> mutation notifications arrive in one synchronous
  task. Then at most one recompute task is queued; if the flag was already set the
  notifications change nothing; if it was clear and \<open>n\<close> is positive, the flag is set
  and exactly one task is queued; no \<open>update\<close> has been called on the adapter meanwhile;
  and running the task clears the flag, empties the queue and calls \<open>update\<close> at most
  once.
\<close>

theorem config_recompute_batched:
  fixes n :: nat and history d host h
  defines "c0 \<equiv> connector_steps history (createConnector d host)"
  defines "c \<equiv> (ro_callback ^^ n) c0"
  shows "length (microtasks c) \<le> 1
    \<and> (hasPendingConfig c0 \<longrightarrow> c = c0)
    \<and> (\<not> hasPendingConfig c0 \<and> 0 < n \<longrightarrow> hasPendingConfig c \<and> microtasks c = [CollectConfig])
    \<and> update_calls c = update_calls c0
    \<and> hasPendingConfig (run_microtask h c) = False
    \<and> microtasks (run_microtask h c) = []
    \<and> update_calls (run_microtask h c) \<le> update_calls c0 + 1"
proof -
  have inv0: "connector_inv c0"
    unfolding c0_def by (rule connector_steps_inv) (rule createConnector_inv)
  have inv: "connector_inv c"
    unfolding c_def by (induction n) (simp_all add: inv0 ro_callback_inv)
  have upd: "update_calls c = update_calls c0"
    unfolding c_def by (induction n) (simp_all add: ro_callback_update_calls)
  have len: "length (microtasks c) \<le> 1"
    using inv by (simp add: connector_inv_def)
  have pend: "hasPendingConfig c0 \<longrightarrow> c = c0"
    unfolding c_def by (simp add: ro_callback_funpow_pending)
  have first: "\<not> hasPendingConfig c0 \<and> 0 < n
                 \<longrightarrow> hasPendingConfig c \<and> microtasks c = [CollectConfig]"
  proof (intro impI, elim conjE)
    assume "0 < n"
    then obtain m where "n = Suc m" by (cases n) auto
    then have "c = ro_callback c0"
      unfolding c_def by (simp only: ro_callback_funpow_Suc)
    then have "hasPendingConfig c"
      by (simp add: ro_callback_sets_pending)
    with inv show "hasPendingConfig c \<and> microtasks c = [CollectConfig]"
      by (simp add: connector_inv_def)
  qed
  have run: "hasPendingConfig (run_microtask h c) = False \<and> microtasks (run_microtask h c) = []"
    using inv by (rule run_microtask_clears)
  have "update_calls (run_microtask h c) \<le> update_calls c + 1"
    by (rule run_microtask_update_calls)
  with upd have runupd: "update_calls (run_microtask h c) \<le> update_calls c0 + 1"
    by simp
  show ?thesis using len pend first upd run runupd by blast
qed

text \<open>
  The connector of the wired field \<open>data\<close>, right after its creation (one \<open>update\<close>, for
  the initial config): three notifications queue one task, and running it brings the
  adapter its second \<open>update\<close>. A further notification while the flag is set changes
  nothing.
\<close>

theorem config_recompute_batched_witness:
  "\<not> hasPendingConfig (connector_steps [] (createConnector wire_data_WireDef []))
   \<and> (0::nat) < Suc (Suc (Suc 0))
   \<and> hasPendingConfig
       ((ro_callback ^^ Suc (Suc (Suc 0))) (connector_steps [] (createConnector wire_data_WireDef [])))
   \<and> microtasks
       ((ro_callback ^^ Suc (Suc (Suc 0))) (connector_steps [] (createConnector wire_data_WireDef [])))
       = [CollectConfig]
   \<and> update_calls
       ((ro_callback ^^ Suc (Suc (Suc 0))) (connector_steps [] (createConnector wire_data_WireDef [])))
       = 1
   \<and> update_calls (run_microtask []
       ((ro_callback ^^ Suc (Suc (Suc 0))) (connector_steps [] (createConnector wire_data_WireDef []))))
       = 2
   \<and> hasPendingConfig (connector_steps [Notify] (createConnector wire_data_WireDef []))
   \<and> (ro_callback ^^ Suc 0) (connector_steps [Notify] (createConnector wire_data_WireDef []))
       = connector_steps [Notify] (createConnector wire_data_WireDef [])"
proof -
  have clear: "\<not> hasPendingConfig (connector_steps [] (createConnector wire_data_WireDef []))"
    by (simp add: createConnector_state)
  have pos: "(0::nat) < Suc (Suc (Suc 0))"
    by simp
  have pending1: "hasPendingConfig (connector_steps [Notify] (createConnector wire_data_WireDef []))"
    by (simp add: ro_callback_sets_pending)
  have u0: "update_calls (createConnector wire_data_WireDef []) = 1"
    by (simp add: createConnector_def wire_data_WireDef_def buildConfigExtractor_def
        computeReactiveParams_def update_calls_def)
  have u1: "update_calls (run_microtask []
       ((ro_callback ^^ Suc (Suc (Suc 0))) (connector_steps [] (createConnector wire_data_WireDef []))))
       = 2"
    by (simp add: createConnector_def wire_data_WireDef_def buildConfigExtractor_def
        computeReactiveParams_def update_calls_def ro_callback_def run_microtask_def)
  from config_recompute_batched
         [of "Suc (Suc (Suc 0))" "[]" wire_data_WireDef "[]" "[]"]
       config_recompute_batched [of "Suc 0" "[Notify]" wire_data_WireDef "[]" "[]"]
       clear pos pending1 u0 u1
  show ?thesis by simp
qed

end
